theory Spec2Isabelle
  imports Complex_Main
begin

section \<open>Errors and arrays\<close>

text \<open>
  The two notebooks (the tfrecords loader and the NetCDF loader) are Python scripts over
  numpy arrays. Exceptions are values: a computation returns \<open>error + 'a\<close>, with
  \<open>Inl\<close> for the exception that ends it. Array elements are real numbers: the
  model idealises IEEE floating point, and a float operation with no real result
  (a division by zero, a logarithm of a non-positive number) is the outcome
  \<open>NotReal\<close>. For Python numbers that outcome is a raised ZeroDivisionError or
  ValueError; for numpy arrays it is an inf or nan entry under a RuntimeWarning.
\<close>

datatype error =
    KeyError
  | ValueError
  | IndexError
  | TypeError
  | NotReal
  | InvalidArgumentError
  | OSError string

fun bind_err :: "error + 'a \<Rightarrow> ('a \<Rightarrow> error + 'b) \<Rightarrow> error + 'b" where
  "bind_err (Inl e) f = Inl e"
| "bind_err (Inr x) f = f x"

text \<open>Python's \<open>d[k]\<close> on a dictionary: a missing key raises KeyError.\<close>

definition getitem :: "('k \<rightharpoonup> 'v) \<Rightarrow> 'k \<Rightarrow> error + 'v" where
  "getitem d k = (case d k of None \<Rightarrow> Inl KeyError | Some v \<Rightarrow> Inr v)"

text \<open>
  A numpy array: its shape and its elements in row-major order. For an array that numpy
  can build, \<open>length (data a) = prod_list (shape a)\<close>.
\<close>

record 'a ndarray =
  shape :: "nat list"
  data :: "'a list"

definition wf_array :: "'a ndarray \<Rightarrow> bool" where
  "wf_array a = (length (data a) = prod_list (shape a))"

text \<open>
  numpy broadcasting of two shapes, aligned at the last axis: two extents are
  compatible when they are equal or one of them is 1; otherwise the operation raises
  ValueError. \<open>broadcast_rev\<close> walks the reversed shapes.
\<close>

fun broadcast_rev :: "nat list \<Rightarrow> nat list \<Rightarrow> nat list option" where
  "broadcast_rev [] ys = Some ys"
| "broadcast_rev (x # xs) [] = Some (x # xs)"
| "broadcast_rev (x # xs) (y # ys) =
     (if x = y \<or> y = 1 then map_option ((#) x) (broadcast_rev xs ys)
      else if x = 1 then map_option ((#) y) (broadcast_rev xs ys)
      else None)"

definition broadcast_shapes :: "nat list \<Rightarrow> nat list \<Rightarrow> nat list option" where
  "broadcast_shapes s t = map_option rev (broadcast_rev (rev s) (rev t))"

fun unravel_index :: "nat \<Rightarrow> nat list \<Rightarrow> nat list" where
  "unravel_index k [] = []"
| "unravel_index k (d # ds) = (k div prod_list ds) mod d # unravel_index (k mod prod_list ds) ds"

fun ravel_index :: "nat list \<Rightarrow> nat list \<Rightarrow> nat" where
  "ravel_index (i # is) (d # ds) = i * prod_list ds + ravel_index is ds"
| "ravel_index _ _ = 0"

text \<open>
  The element of \<open>a\<close> that lands at flat position \<open>k\<close> of the broadcast result of
  shape \<open>t\<close>: the trailing axes of the index are \<open>a\<close>'s own, and an axis of extent 1 is
  read at 0.
\<close>

definition broadcast_get :: "'a ndarray \<Rightarrow> nat list \<Rightarrow> nat \<Rightarrow> 'a" where
  "broadcast_get a t k =
     (let idx = drop (length t - length (shape a)) (unravel_index k t);
          own = map2 (\<lambda>d i. if d = 1 then 0 else i) (shape a) idx
      in data a ! ravel_index own (shape a))"

text \<open>\<open>a - b\<close> on arrays: elementwise on equal shapes, broadcast otherwise.\<close>

definition np_subtract :: "real ndarray \<Rightarrow> real ndarray \<Rightarrow> error + real ndarray" where
  "np_subtract a b =
     (if shape a = shape b
      then Inr \<lparr>shape = shape a, data = map2 (-) (data a) (data b)\<rparr>
      else case broadcast_shapes (shape a) (shape b) of
             None \<Rightarrow> Inl ValueError
           | Some t \<Rightarrow> Inr \<lparr>shape = t,
                            data = map (\<lambda>k. broadcast_get a t k - broadcast_get b t k)
                                       [0..<prod_list t]\<rparr>)"

text \<open>
  \<open>np.stack([r, g, b], axis=-1)\<close>: the inputs must have one shape (ValueError
  otherwise); the result has one more, last, axis that selects the input.
\<close>

definition np_stack_last :: "real ndarray list \<Rightarrow> error + real ndarray" where
  "np_stack_last arrs =
     (case arrs of
        [] \<Rightarrow> Inl ValueError
      | a # rest \<Rightarrow>
          if list_all (\<lambda>b. shape b = shape a) rest
          then Inr \<lparr>shape = shape a @ [length arrs],
                    data = concat (map (\<lambda>k. map (\<lambda>c. data c ! k) arrs)
                                       [0..<length (data a)])\<rparr>
          else Inl ValueError)"

text \<open>\<open>np.clip(a, lo, hi)\<close> is \<open>minimum(maximum(a, lo), hi)\<close> on every element.\<close>

definition np_clip :: "real ndarray \<Rightarrow> real \<Rightarrow> real \<Rightarrow> real ndarray" where
  "np_clip a lo hi = a\<lparr>data := map (\<lambda>x. min (max x lo) hi) (data a)\<rparr>"

text \<open>
  An arithmetic expression of Python numbers applied to an array runs on every element;
  the first element without a real result decides the outcome.
\<close>

fun sequence_err :: "(error + 'a) list \<Rightarrow> error + 'a list" where
  "sequence_err [] = Inr []"
| "sequence_err (x # xs) =
     bind_err x (\<lambda>y. bind_err (sequence_err xs) (\<lambda>ys. Inr (y # ys)))"

definition elementwise :: "(real \<Rightarrow> error + real) \<Rightarrow> real ndarray \<Rightarrow> error + real ndarray" where
  "elementwise f a =
     bind_err (sequence_err (map f (data a))) (\<lambda>ys. Inr \<lparr>shape = shape a, data = ys\<rparr>)"

section \<open>The false-color composite of the tfrecords notebook\<close>

text \<open>
  \<^verbatim>\<open>
  _T11_BOUNDS = (243, 303)
  _CLOUD_TOP_TDIFF_BOUNDS = (-4, 5)
  _TDIFF_BOUNDS = (-4, 2)

  def normalize_range(data, bounds):
    """Maps data to the range [0, 1]."""
    return (data - bounds[0]) / (bounds[1] - bounds[0])

  def false_color_image(brightness_temperatures):
    """Generates ash false color image from GOES brightness temperatures."""
    r = normalize_range(brightness_temperatures['data_12um'] - brightness_temperatures['data_11um'], _TDIFF_BOUNDS)
    g = normalize_range(brightness_temperatures['data_11um'] - brightness_temperatures['cloud_top'], _CLOUD_TOP_TDIFF_BOUNDS)
    b = normalize_range(brightness_temperatures['data_11um'], _T11_BOUNDS)
    return np.clip(np.stack([r, g, b], axis=-1), 0, 1)
  \<close>
  \<open>normalize_range\<close> is the function on one number; \<open>normalize_range_nd\<close> is the same
  expression on an array, which numpy evaluates element by element.
\<close>

definition T11_BOUNDS :: "real \<times> real" where
  "T11_BOUNDS = (243, 303)"

definition CLOUD_TOP_TDIFF_BOUNDS :: "real \<times> real" where
  "CLOUD_TOP_TDIFF_BOUNDS = (-4, 5)"

definition TDIFF_BOUNDS :: "real \<times> real" where
  "TDIFF_BOUNDS = (-4, 2)"

definition normalize_range :: "real \<Rightarrow> real \<times> real \<Rightarrow> error + real" where
  "normalize_range x bounds =
     (if snd bounds - fst bounds = 0 then Inl NotReal
      else Inr ((x - fst bounds) / (snd bounds - fst bounds)))"

definition normalize_range_nd :: "real ndarray \<Rightarrow> real \<times> real \<Rightarrow> error + real ndarray" where
  "normalize_range_nd a bounds = elementwise (\<lambda>x. normalize_range x bounds) a"

definition false_color_image :: "(string \<rightharpoonup> real ndarray) \<Rightarrow> error + real ndarray" where
  "false_color_image brightness_temperatures =
     bind_err (getitem brightness_temperatures ''data_12um'') (\<lambda>t12.
     bind_err (getitem brightness_temperatures ''data_11um'') (\<lambda>t11.
     bind_err (np_subtract t12 t11) (\<lambda>d.
     bind_err (normalize_range_nd d TDIFF_BOUNDS) (\<lambda>r.
     bind_err (getitem brightness_temperatures ''data_11um'') (\<lambda>t11.
     bind_err (getitem brightness_temperatures ''cloud_top'') (\<lambda>tct.
     bind_err (np_subtract t11 tct) (\<lambda>d.
     bind_err (normalize_range_nd d CLOUD_TOP_TDIFF_BOUNDS) (\<lambda>g.
     bind_err (getitem brightness_temperatures ''data_11um'') (\<lambda>t11.
     bind_err (normalize_range_nd t11 T11_BOUNDS) (\<lambda>b.
     bind_err (np_stack_last [r, g, b]) (\<lambda>s.
     Inr (np_clip s 0 1))))))))))))"

section \<open>The false-color composite of the NetCDF notebook\<close>

text \<open>
  The NetCDF notebook defines the same three constants and the same two functions
  again; its dictionary is keyed by the band number.
  \<^verbatim>\<open>
  def false_color_image(brightness_temperatures):
    r = normalize_range(brightness_temperatures[15] - brightness_temperatures[14], _TDIFF_BOUNDS)
    g = normalize_range(brightness_temperatures[14] - brightness_temperatures[11], _CLOUD_TOP_TDIFF_BOUNDS)
    b = normalize_range(brightness_temperatures[14], _T11_BOUNDS)
    return np.clip(np.stack([r, g, b], axis=-1), 0, 1)
  \<close>
\<close>

definition T11_BOUNDS_nc :: "real \<times> real" where
  "T11_BOUNDS_nc = (243, 303)"

definition CLOUD_TOP_TDIFF_BOUNDS_nc :: "real \<times> real" where
  "CLOUD_TOP_TDIFF_BOUNDS_nc = (-4, 5)"

definition TDIFF_BOUNDS_nc :: "real \<times> real" where
  "TDIFF_BOUNDS_nc = (-4, 2)"

definition normalize_range_nc :: "real \<Rightarrow> real \<times> real \<Rightarrow> error + real" where
  "normalize_range_nc x bounds =
     (if snd bounds - fst bounds = 0 then Inl NotReal
      else Inr ((x - fst bounds) / (snd bounds - fst bounds)))"

definition normalize_range_nd_nc :: "real ndarray \<Rightarrow> real \<times> real \<Rightarrow> error + real ndarray" where
  "normalize_range_nd_nc a bounds = elementwise (\<lambda>x. normalize_range_nc x bounds) a"

definition false_color_image_nc :: "(int \<rightharpoonup> real ndarray) \<Rightarrow> error + real ndarray" where
  "false_color_image_nc brightness_temperatures =
     bind_err (getitem brightness_temperatures 15) (\<lambda>t12.
     bind_err (getitem brightness_temperatures 14) (\<lambda>t11.
     bind_err (np_subtract t12 t11) (\<lambda>d.
     bind_err (normalize_range_nd_nc d TDIFF_BOUNDS_nc) (\<lambda>r.
     bind_err (getitem brightness_temperatures 14) (\<lambda>t11.
     bind_err (getitem brightness_temperatures 11) (\<lambda>tct.
     bind_err (np_subtract t11 tct) (\<lambda>d.
     bind_err (normalize_range_nd_nc d CLOUD_TOP_TDIFF_BOUNDS_nc) (\<lambda>g.
     bind_err (getitem brightness_temperatures 14) (\<lambda>t11.
     bind_err (normalize_range_nd_nc t11 T11_BOUNDS_nc) (\<lambda>b.
     bind_err (np_stack_last [r, g, b]) (\<lambda>s.
     Inr (np_clip s 0 1))))))))))))"

section \<open>Reading the channels of a composite\<close>

text \<open>
  \<open>a[..., c]\<close>: the channel \<open>c\<close> of an image, that is the array of the elements
  whose last index is \<open>c\<close>. The properties of the composite are stated on its
  channels.
\<close>

definition index_last :: "real ndarray \<Rightarrow> nat \<Rightarrow> error + real ndarray" where
  "index_last a c =
     (case rev (shape a) of
        [] \<Rightarrow> Inl IndexError
      | n # outer \<Rightarrow>
          if c < n
          then Inr \<lparr>shape = rev outer,
                    data = map (\<lambda>p. data a ! (p * n + c)) [0..<prod_list outer]\<rparr>
          else Inl IndexError)"

text \<open>
  The specification describes every channel as the normalisation of a difference of two
  spectral bands. \<open>spec_band_difference_channels\<close> follows these words: it lists, for
  every two bands of a list and every one of the three bounds, the clipped normalisation
  of the difference of the two bands. It is compared with what the code computes.
\<close>

definition spec_band_difference_channels ::
  "(string \<rightharpoonup> real ndarray) \<Rightarrow> string list \<Rightarrow> (error + real ndarray) list" where
  "spec_band_difference_channels bt bands =
     concat (map (\<lambda>k1. concat (map (\<lambda>k2. map (\<lambda>bounds.
       bind_err (getitem bt k1) (\<lambda>t1.
       bind_err (getitem bt k2) (\<lambda>t2.
       bind_err (np_subtract t1 t2) (\<lambda>d.
       bind_err (normalize_range_nd d bounds) (\<lambda>n.
       Inr (np_clip n 0 1))))))
       [TDIFF_BOUNDS, CLOUD_TOP_TDIFF_BOUNDS, T11_BOUNDS]) bands)) bands)"

section \<open>Parsing a serialized example (tfrecords notebook)\<close>

text \<open>
  A record of the dataset is a serialized \<open>tf.train.Example\<close>: a map from feature
  names to features, each a list of byte strings, of floats or of 64-bit integers.
  \<open>None\<close> stands for bytes that are no Example at all. A byte string is modelled
  by what \<open>tf.io.parse_tensor\<close> can make of it: a serialized tensor of doubles, a
  serialized tensor of 32-bit integers, a serialized tensor of some other element type,
  or text that is no serialized tensor. Integers are \<open>int\<close>: the notebook does no
  arithmetic on them except the sum of a mask, where the 64-bit accumulator is written
  out.
\<close>

datatype dtype = DT_STRING | DT_INT64 | DT_FLOAT | DT_DOUBLE | DT_INT32

datatype bytes =
    Opaque string
  | DoubleProto "real ndarray"
  | Int32Proto "int ndarray"
  | OtherProto

datatype feature =
    BytesList "bytes list"
  | FloatList "real list"
  | Int64List "int list"

type_synonym example = "(string \<rightharpoonup> feature) option"

datatype feature_conf =
    FixedLenFeature "nat list" dtype
  | VarLenFeature dtype

text \<open>
  The values of the parsed dictionary: scalar tensors of the three feature types, the
  sparse tensor of a variable-length feature, and the dense arrays that
  \<open>parse_tensor\<close> decodes.
\<close>

datatype tensor =
    TString bytes
  | TInt64 int
  | TFloat32 real
  | TSparseInt64 "int list"
  | TDouble "real ndarray"
  | TInt32 "int ndarray"

fun dtype_of :: "tensor \<Rightarrow> dtype" where
  "dtype_of (TString _) = DT_STRING"
| "dtype_of (TInt64 _) = DT_INT64"
| "dtype_of (TFloat32 _) = DT_FLOAT"
| "dtype_of (TSparseInt64 _) = DT_INT64"
| "dtype_of (TDouble _) = DT_DOUBLE"
| "dtype_of (TInt32 _) = DT_INT32"

text \<open>
  \<open>tf.io.parse_single_example\<close> on one entry of the feature specification. A
  \<open>FixedLenFeature\<close> of shape \<open>[]\<close> without a default is required: the feature must
  be present, of the declared type, with exactly one value. A \<open>VarLenFeature\<close> may be
  absent (an empty sparse tensor) but must have the declared type when present. Every
  failure is TensorFlow's InvalidArgumentError.
\<close>

fun parse_feature :: "feature_conf \<Rightarrow> feature option \<Rightarrow> error + tensor" where
  "parse_feature (FixedLenFeature [] DT_STRING) (Some (BytesList [b])) = Inr (TString b)"
| "parse_feature (FixedLenFeature [] DT_INT64) (Some (Int64List [v])) = Inr (TInt64 v)"
| "parse_feature (FixedLenFeature [] DT_FLOAT) (Some (FloatList [v])) = Inr (TFloat32 v)"
| "parse_feature (FixedLenFeature _ _) _ = Inl InvalidArgumentError"
| "parse_feature (VarLenFeature DT_INT64) None = Inr (TSparseInt64 [])"
| "parse_feature (VarLenFeature DT_INT64) (Some (Int64List vs)) = Inr (TSparseInt64 vs)"
| "parse_feature (VarLenFeature _) _ = Inl InvalidArgumentError"

fun parse_features ::
  "(string \<rightharpoonup> feature) \<Rightarrow> (string \<times> feature_conf) list \<Rightarrow> error + (string \<rightharpoonup> tensor)" where
  "parse_features fs [] = Inr Map.empty"
| "parse_features fs ((name, conf) # spec) =
     bind_err (parse_feature conf (fs name)) (\<lambda>t.
     bind_err (parse_features fs spec) (\<lambda>m. Inr (m(name \<mapsto> t))))"

definition parse_single_example ::
  "example \<Rightarrow> (string \<times> feature_conf) list \<Rightarrow> error + (string \<rightharpoonup> tensor)" where
  "parse_single_example serialized spec =
     (case serialized of
        None \<Rightarrow> Inl InvalidArgumentError
      | Some fs \<Rightarrow> parse_features fs spec)"

text \<open>
  \<open>tf.io.parse_tensor(serialized, out_type)\<close>: the bytes must be a serialized tensor
  whose element type is \<open>out_type\<close>. The notebook asks for \<open>tf.double\<close> and
  \<open>tf.int32\<close> only.
\<close>

fun parse_tensor :: "tensor \<Rightarrow> dtype \<Rightarrow> error + tensor" where
  "parse_tensor (TString (DoubleProto a)) DT_DOUBLE = Inr (TDouble a)"
| "parse_tensor (TString (Int32Proto a)) DT_INT32 = Inr (TInt32 a)"
| "parse_tensor (TString _) _ = Inl InvalidArgumentError"
| "parse_tensor _ _ = Inl TypeError"

text \<open>
  \<^verbatim>\<open>
  def parse_example(serialized_example: bytes) -> dict[str, tf.Tensor]:
    # GOES-16 ABI band 8 to 16
    goes_bands = ('upper_vapor', 'mid_vapor', 'low_vapor', 'cloud_top', 'ozone',
                  'data_10um', 'data_11um', 'data_12um', 'co2')
    feature_spec = {band: tf.io.FixedLenFeature([], tf.string) for band in goes_bands}
    feature_spec.update({
        'brightness_temperature_difference':  tf.io.FixedLenFeature([], tf.string),
        'human_individual_masks': tf.io.FixedLenFeature([], tf.string),
        'human_pixel_masks': tf.io.FixedLenFeature([], tf.string),
        'n_times_before': tf.io.FixedLenFeature([], tf.int64),
        'n_times_after': tf.io.FixedLenFeature([], tf.int64),
        'projection_wkt': tf.io.FixedLenFeature([], tf.string),
        'col_min': tf.io.FixedLenFeature([], tf.float32),
        'row_min': tf.io.FixedLenFeature([], tf.float32),
        'col_size': tf.io.FixedLenFeature([], tf.float32),
        'row_size': tf.io.FixedLenFeature([], tf.float32),
        'timestamp': tf.io.FixedLenFeature([], tf.int64),
        'satellite_scan_starts': tf.io.VarLenFeature(tf.int64),
    })
    features = tf.io.parse_single_example(serialized_example, feature_spec)
    for key in [*goes_bands, 'brightness_temperature_difference']:
      features[key] = tf.io.parse_tensor(features[key], tf.double)
    features['human_pixel_masks'] = tf.io.parse_tensor(features['human_pixel_masks'], tf.int32)
    features['human_individual_masks'] = tf.io.parse_tensor(features['human_individual_masks'], tf.int32)
    return features
  \<close>
  The feature specification is a dictionary built in this order; its keys are distinct,
  so the update appends.
\<close>

definition goes_bands :: "string list" where
  "goes_bands = [''upper_vapor'', ''mid_vapor'', ''low_vapor'', ''cloud_top'', ''ozone'',
                 ''data_10um'', ''data_11um'', ''data_12um'', ''co2'']"

definition feature_spec :: "(string \<times> feature_conf) list" where
  "feature_spec =
     map (\<lambda>band. (band, FixedLenFeature [] DT_STRING)) goes_bands @
     [(''brightness_temperature_difference'', FixedLenFeature [] DT_STRING),
      (''human_individual_masks'', FixedLenFeature [] DT_STRING),
      (''human_pixel_masks'', FixedLenFeature [] DT_STRING),
      (''n_times_before'', FixedLenFeature [] DT_INT64),
      (''n_times_after'', FixedLenFeature [] DT_INT64),
      (''projection_wkt'', FixedLenFeature [] DT_STRING),
      (''col_min'', FixedLenFeature [] DT_FLOAT),
      (''row_min'', FixedLenFeature [] DT_FLOAT),
      (''col_size'', FixedLenFeature [] DT_FLOAT),
      (''row_size'', FixedLenFeature [] DT_FLOAT),
      (''timestamp'', FixedLenFeature [] DT_INT64),
      (''satellite_scan_starts'', VarLenFeature DT_INT64)]"

text \<open>\<open>features[key] = tf.io.parse_tensor(features[key], out_type)\<close>\<close>

definition decode_key ::
  "string \<Rightarrow> dtype \<Rightarrow> (string \<rightharpoonup> tensor) \<Rightarrow> error + (string \<rightharpoonup> tensor)" where
  "decode_key key out_type features =
     bind_err (getitem features key) (\<lambda>s.
     bind_err (parse_tensor s out_type) (\<lambda>t. Inr (features(key \<mapsto> t))))"

fun decode_keys ::
  "string list \<Rightarrow> dtype \<Rightarrow> (string \<rightharpoonup> tensor) \<Rightarrow> error + (string \<rightharpoonup> tensor)" where
  "decode_keys [] out_type features = Inr features"
| "decode_keys (key # keys) out_type features =
     bind_err (decode_key key out_type features) (decode_keys keys out_type)"

definition parse_example :: "example \<Rightarrow> error + (string \<rightharpoonup> tensor)" where
  "parse_example serialized_example =
     bind_err (parse_single_example serialized_example feature_spec) (\<lambda>features.
     bind_err (decode_keys (goes_bands @ [''brightness_temperature_difference''])
                 DT_DOUBLE features) (\<lambda>features.
     bind_err (decode_key ''human_pixel_masks'' DT_INT32 features) (\<lambda>features.
     decode_key ''human_individual_masks'' DT_INT32 features)))"

text \<open>
  A variable-length feature parses to a sparse tensor, every other field to a dense one.
\<close>

fun is_sparse :: "tensor \<Rightarrow> bool" where
  "is_sparse (TSparseInt64 _) = True"
| "is_sparse _ = False"

text \<open>
  The record schema as the specification lists it: every key with the element type of
  its tensor and whether it is variable-length. It is compared with what
  \<open>parse_example\<close> returns.
\<close>

definition spec_record_schema :: "(string \<times> dtype \<times> bool) list" where
  "spec_record_schema =
     [(''upper_vapor'', DT_DOUBLE, False),
      (''mid_vapor'', DT_DOUBLE, False),
      (''low_vapor'', DT_DOUBLE, False),
      (''cloud_top'', DT_DOUBLE, False),
      (''ozone'', DT_DOUBLE, False),
      (''data_10um'', DT_DOUBLE, False),
      (''data_11um'', DT_DOUBLE, False),
      (''data_12um'', DT_DOUBLE, False),
      (''co2'', DT_DOUBLE, False),
      (''brightness_temperature_difference'', DT_DOUBLE, False),
      (''human_pixel_masks'', DT_INT32, False),
      (''human_individual_masks'', DT_INT32, False),
      (''n_times_before'', DT_INT64, False),
      (''n_times_after'', DT_INT64, False),
      (''timestamp'', DT_INT64, False),
      (''projection_wkt'', DT_STRING, False),
      (''col_min'', DT_FLOAT, False),
      (''row_min'', DT_FLOAT, False),
      (''col_size'', DT_FLOAT, False),
      (''row_size'', DT_FLOAT, False),
      (''satellite_scan_starts'', DT_INT64, True)]"

section \<open>The visualization loop (tfrecords notebook)\<close>

text \<open>
  \<^verbatim>\<open>
  dataset = tf.data.TFRecordDataset(tf.io.gfile.glob('gs://.../train.tfrecords-00000-of-00100'))
  dataset = dataset.map(parse_example)

  count = 0
  for features in dataset.as_numpy_iterator():
    # Skip examples without contrails for visualization
    if features['human_pixel_masks'].sum() == 0:
      continue
    n_times_before = features['n_times_before']
    false_color_images = false_color_image(features)
    plt.figure(figsize=(12, 6))
    plt.subplot(1, 2, 1)
    plt.imshow(false_color_images[..., n_times_before, :])
    plt.subplot(1, 2, 2)
    plt.imshow(features['human_pixel_masks'].squeeze(-1))
    plt.show()
    count += 1
    if count >= 10:
      break
  \<close>
  The dataset is lazy: each step of the iteration reads one record and parses it, and
  either of the two can raise there. The input of the model is the finite list of what
  reading yields, record by record: the bytes of a record, or the error of the read.
  The state is the counter and the figures that \<open>plt.show()\<close> has displayed.
\<close>

text \<open>
  \<open>a.sum()\<close> on an array of 32-bit integers accumulates in the 64-bit platform
  integer, which wraps around.
\<close>

definition wrap_int64 :: "int \<Rightarrow> int" where
  "wrap_int64 v = (v + 2 ^ 63) mod 2 ^ 64 - 2 ^ 63"

definition np_sum :: "int ndarray \<Rightarrow> int" where
  "np_sum a = wrap_int64 (sum_list (data a))"

text \<open>
  The loop reads \<open>human_pixel_masks\<close> as an integer array, \<open>n_times_before\<close> as
  an integer and hands the dictionary to \<open>false_color_image\<close>, which reads arrays of
  doubles. \<open>parse_example\<close> leaves exactly these kinds under these keys; a value of
  another kind is a TypeError of the model, and \<open>float_arrays\<close> shows
  \<open>false_color_image\<close> the arrays of doubles only.
\<close>

definition as_int32 :: "tensor \<Rightarrow> error + int ndarray" where
  "as_int32 t = (case t of TInt32 a \<Rightarrow> Inr a | _ \<Rightarrow> Inl TypeError)"

definition as_int64 :: "tensor \<Rightarrow> error + int" where
  "as_int64 t = (case t of TInt64 v \<Rightarrow> Inr v | _ \<Rightarrow> Inl TypeError)"

definition float_arrays :: "(string \<rightharpoonup> tensor) \<Rightarrow> (string \<rightharpoonup> real ndarray)" where
  "float_arrays features =
     (\<lambda>k. case features k of Some (TDouble a) \<Rightarrow> Some a | _ \<Rightarrow> None)"

text \<open>
  \<open>a[..., n, :]\<close>: the array needs two axes at least; \<open>n\<close> indexes the axis before
  the last, a negative \<open>n\<close> counts from its end, and an index out of range raises
  IndexError.
\<close>

definition index_before_last :: "real ndarray \<Rightarrow> int \<Rightarrow> error + real ndarray" where
  "index_before_last a n =
     (case rev (shape a) of
        c # t # outer \<Rightarrow>
          (let j = (if n < 0 then n + int t else n)
           in if 0 \<le> j \<and> j < int t
              then Inr \<lparr>shape = rev outer @ [c],
                        data = concat (map (\<lambda>p. take c (drop ((p * t + nat j) * c) (data a)))
                                           [0..<prod_list outer])\<rparr>
              else Inl IndexError)
      | _ \<Rightarrow> Inl IndexError)"

text \<open>\<open>a.squeeze(-1)\<close>: the last axis must have extent 1 (ValueError otherwise).\<close>

definition squeeze_last :: "'a ndarray \<Rightarrow> error + 'a ndarray" where
  "squeeze_last a =
     (case rev (shape a) of
        d # outer \<Rightarrow> if d = 1 then Inr \<lparr>shape = rev outer, data = data a\<rparr> else Inl ValueError
      | [] \<Rightarrow> Inl ValueError)"

text \<open>
  \<open>plt.imshow(X)\<close> accepts an image of shape (M, N), (M, N, 3) or (M, N, 4) and raises
  TypeError on any other.
\<close>

definition imshow :: "'a ndarray \<Rightarrow> error + unit" where
  "imshow X =
     (case shape X of
        [m, n] \<Rightarrow> Inr ()
      | [m, n, c] \<Rightarrow> if c = 3 \<or> c = 4 then Inr () else Inl TypeError
      | _ \<Rightarrow> Inl TypeError)"

record figure =
  image :: "real ndarray"
  mask_image :: "int ndarray"

record vis_state =
  count :: nat
  shown :: "figure list"

datatype control = Next | Break | Raise error

datatype outcome = Exhausted | Stopped | Raised error

text \<open>The body from \<open>n_times_before = ...\<close> to \<open>plt.show()\<close>.\<close>

definition plot_example :: "(string \<rightharpoonup> tensor) \<Rightarrow> error + figure" where
  "plot_example features =
     bind_err (bind_err (getitem features ''n_times_before'') as_int64) (\<lambda>n_times_before.
     bind_err (false_color_image (float_arrays features)) (\<lambda>false_color_images.
     bind_err (index_before_last false_color_images n_times_before) (\<lambda>img.
     bind_err (imshow img) (\<lambda>_.
     bind_err (bind_err (getitem features ''human_pixel_masks'') as_int32) (\<lambda>masks.
     bind_err (squeeze_last masks) (\<lambda>mask.
     bind_err (imshow mask) (\<lambda>_.
     Inr \<lparr>image = img, mask_image = mask\<rparr>)))))))"

definition loop_body :: "vis_state \<Rightarrow> error + example \<Rightarrow> vis_state \<times> control" where
  "loop_body s record =
     (case bind_err record parse_example of
        Inl e \<Rightarrow> (s, Raise e)
      | Inr features \<Rightarrow>
          (case bind_err (getitem features ''human_pixel_masks'') as_int32 of
             Inl e \<Rightarrow> (s, Raise e)
           | Inr masks \<Rightarrow>
               if np_sum masks = 0 then (s, Next)
               else (case plot_example features of
                       Inl e \<Rightarrow> (s, Raise e)
                     | Inr fig \<Rightarrow>
                         (let s' = \<lparr>count = count s + 1, shown = shown s @ [fig]\<rparr>
                          in if count s' \<ge> 10 then (s', Break) else (s', Next)))))"

fun visualization_loop :: "vis_state \<Rightarrow> (error + example) list \<Rightarrow> vis_state \<times> outcome" where
  "visualization_loop s [] = (s, Exhausted)"
| "visualization_loop s (record # records) =
     (case loop_body s record of
        (s', Next) \<Rightarrow> visualization_loop s' records
      | (s', Break) \<Rightarrow> (s', Stopped)
      | (s', Raise e) \<Rightarrow> (s', Raised e))"

text \<open>The states at the end of each iteration that the loop runs, in order.\<close>

fun loop_states :: "vis_state \<Rightarrow> (error + example) list \<Rightarrow> vis_state list" where
  "loop_states s [] = []"
| "loop_states s (record # records) =
     (case loop_body s record of
        (s', Next) \<Rightarrow> s' # loop_states s' records
      | (s', _) \<Rightarrow> [s'])"

definition visualization_cell :: "(error + example) list \<Rightarrow> vis_state \<times> outcome" where
  "visualization_cell records = visualization_loop \<lparr>count = 0, shown = []\<rparr> records"

section \<open>Loading the bands (NetCDF notebook)\<close>







section \<open>Helper facts\<close>

lemma bind_err_Inr_iff: "bind_err m f = Inr y \<longleftrightarrow> (\<exists>x. m = Inr x \<and> f x = Inr y)"
  by (cases m) auto

lemma bind_err_Inl_iff:
  "bind_err m f = Inl e \<longleftrightarrow> m = Inl e \<or> (\<exists>x. m = Inr x \<and> f x = Inl e)"
  by (cases m) auto

lemma getitem_Inr_iff: "getitem d k = Inr v \<longleftrightarrow> d k = Some v"
  by (simp add: getitem_def split: option.splits)

lemma sequence_err_Inr: "sequence_err (map (\<lambda>x. Inr (g x)) xs) = Inr (map g xs)"
  by (induction xs) auto

lemma sequence_err_length: "sequence_err xs = Inr ys \<Longrightarrow> length ys = length xs"
  by (induction xs arbitrary: ys) (auto simp: bind_err_Inr_iff)

lemma elementwise_wf:
  "elementwise f a = Inr b \<Longrightarrow> shape b = shape a \<and> length (data b) = length (data a)"
  by (auto simp: elementwise_def bind_err_Inr_iff dest: sequence_err_length)

lemma normalize_range_nd_Inr:
  "snd bounds \<noteq> fst bounds \<Longrightarrow>
   normalize_range_nd a bounds =
     Inr \<lparr>shape = shape a,
          data = map (\<lambda>x. (x - fst bounds) / (snd bounds - fst bounds)) (data a)\<rparr>"
  by (simp add: normalize_range_nd_def elementwise_def normalize_range_def sequence_err_Inr)

lemma normalize_range_nd_wf:
  "normalize_range_nd a bounds = Inr b \<Longrightarrow> wf_array a \<Longrightarrow> wf_array b"
  by (auto simp: normalize_range_nd_def wf_array_def dest: elementwise_wf)

lemma np_subtract_wf:
  "np_subtract a b = Inr d \<Longrightarrow> wf_array a \<Longrightarrow> wf_array b \<Longrightarrow> wf_array d"
  by (auto simp: np_subtract_def wf_array_def split: if_splits option.splits)

lemma normalize_range_nc_eq: "normalize_range_nc = normalize_range"
  by (intro ext) (simp add: normalize_range_nc_def normalize_range_def)

lemma normalize_range_nd_nc_eq: "normalize_range_nd_nc = normalize_range_nd"
  by (intro ext) (simp add: normalize_range_nd_nc_def normalize_range_nd_def normalize_range_nc_eq)

lemma bounds_nc_eq:
  "T11_BOUNDS_nc = T11_BOUNDS"
  "CLOUD_TOP_TDIFF_BOUNDS_nc = CLOUD_TOP_TDIFF_BOUNDS"
  "TDIFF_BOUNDS_nc = TDIFF_BOUNDS"
  by (simp_all add: T11_BOUNDS_nc_def T11_BOUNDS_def CLOUD_TOP_TDIFF_BOUNDS_nc_def
      CLOUD_TOP_TDIFF_BOUNDS_def TDIFF_BOUNDS_nc_def TDIFF_BOUNDS_def)

text \<open>
  The NetCDF composite is the tfrecords composite on the dictionary that holds band 15
  under \<open>data_12um\<close>, band 14 under \<open>data_11um\<close> and band 11 under \<open>cloud_top\<close>.
\<close>

lemma false_color_image_nc_rename:
  "false_color_image_nc bn =
     false_color_image (\<lambda>k. if k = ''data_12um'' then bn 15
                             else if k = ''data_11um'' then bn 14
                             else if k = ''cloud_top'' then bn 11 else None)"
  by (simp add: false_color_image_nc_def false_color_image_def getitem_def
      normalize_range_nd_nc_eq bounds_nc_eq)

lemma false_color_image_Inr_iff:
  "false_color_image bt = Inr img \<longleftrightarrow>
     (\<exists>t12 t11 tct d1 r d2 g b s.
        bt ''data_12um'' = Some t12 \<and> bt ''data_11um'' = Some t11 \<and> bt ''cloud_top'' = Some tct \<and>
        np_subtract t12 t11 = Inr d1 \<and> normalize_range_nd d1 TDIFF_BOUNDS = Inr r \<and>
        np_subtract t11 tct = Inr d2 \<and> normalize_range_nd d2 CLOUD_TOP_TDIFF_BOUNDS = Inr g \<and>
        normalize_range_nd t11 T11_BOUNDS = Inr b \<and>
        np_stack_last [r, g, b] = Inr s \<and> img = np_clip s 0 1)"
  unfolding false_color_image_def bind_err_Inr_iff getitem_Inr_iff
  by auto

lemma np_clip_unit: "x \<in> set (data (np_clip a 0 1)) \<Longrightarrow> 0 \<le> x \<and> x \<le> 1"
  by (auto simp: np_clip_def)

lemma false_color_image_unit:
  "false_color_image bt = Inr img \<Longrightarrow> x \<in> set (data img) \<Longrightarrow> 0 \<le> x \<and> x \<le> 1"
  unfolding false_color_image_Inr_iff by (auto dest: np_clip_unit)

lemma false_color_image_returns:
  assumes "bt ''data_12um'' = Some t12" "bt ''data_11um'' = Some t11" "bt ''cloud_top'' = Some tct"
    and "shape t12 = shape t11" "shape tct = shape t11"
  shows "\<exists>img. false_color_image bt = Inr img \<and> shape img = shape t11 @ [3]"
  using assms
  by (simp add: false_color_image_def getitem_def np_subtract_def normalize_range_nd_Inr
      TDIFF_BOUNDS_def CLOUD_TOP_TDIFF_BOUNDS_def T11_BOUNDS_def np_stack_last_def np_clip_def)

lemma nth_concat_triples:
  "p < n \<Longrightarrow> j < 3 \<Longrightarrow>
   concat (map (\<lambda>k. [f0 k, f1 k, f2 k]) [0..<n]) ! (p * 3 + j) = [f0 p, f1 p, f2 p] ! j"
proof (induction n)
  case 0
  then show ?case by simp
next
  case (Suc n)
  have len: "length (concat (map (\<lambda>k. [f0 k, f1 k, f2 k]) [0..<n])) = n * 3"
    by (induction n) auto
  show ?case
  proof (cases "p < n")
    case True
    with Suc show ?thesis by (simp add: nth_append len)
  next
    case False
    with Suc.prems have "p = n" by simp
    with Suc.prems show ?thesis by (simp add: nth_append len)
  qed
qed

lemma prod_list_rev_nat: "prod_list (rev xs) = prod_list (xs :: nat list)"
  by (induction xs) auto

text \<open>Channel \<open>c\<close> of the clipped stack of three arrays is the clipped \<open>c\<close>-th array.\<close>

lemma stack_channel:
  assumes "np_stack_last [r, g, b] = Inr s" "wf_array r" "wf_array g" "wf_array b" "c < 3"
  shows "index_last (np_clip s 0 1) c = Inr (np_clip ([r, g, b] ! c) 0 1)"
proof -
  let ?n = "length (data r)"
  let ?clip = "\<lambda>x::real. min (max x 0) 1"
  from assms(1) have sh: "shape g = shape r" "shape b = shape r"
    and s: "s = \<lparr>shape = shape r @ [3],
                 data = concat (map (\<lambda>k. [data r ! k, data g ! k, data b ! k]) [0..<?n])\<rparr>"
    by (auto simp: np_stack_last_def split: if_splits)
  from assms sh have len: "length (data g) = ?n" "length (data b) = ?n" "prod_list (shape r) = ?n"
    by (auto simp: wf_array_def)
  from \<open>c < 3\<close> have c: "c = 0 \<or> c = 1 \<or> c = 2" by auto
  have lens: "length (data s) = ?n * 3"
    unfolding s by (simp add: length_concat comp_def sum_list_triv)
  have lenc: "length (data ([r, g, b] ! c)) = ?n"
    using c len by auto
  have "map (\<lambda>p. map ?clip (data s) ! (p * 3 + c)) [0..<?n] = map ?clip (data ([r, g, b] ! c))"
  proof (rule nth_equalityI)
    show "length (map (\<lambda>p. map ?clip (data s) ! (p * 3 + c)) [0..<?n])
        = length (map ?clip (data ([r, g, b] ! c)))"
      using lenc by simp
  next
    fix i assume "i < length (map (\<lambda>p. map ?clip (data s) ! (p * 3 + c)) [0..<?n])"
    then have i: "i < ?n" by simp
    from i \<open>c < 3\<close> have "i * 3 + c < ?n * 3" by simp
    then have "map ?clip (data s) ! (i * 3 + c) = ?clip (data s ! (i * 3 + c))"
      using lens by simp
    also have "data s ! (i * 3 + c) = [data r ! i, data g ! i, data b ! i] ! c"
      unfolding s using nth_concat_triples [OF i \<open>c < 3\<close>] by simp
    also have "\<dots> = data ([r, g, b] ! c) ! i"
      using c by auto
    finally show "map (\<lambda>p. map ?clip (data s) ! (p * 3 + c)) [0..<?n] ! i
        = map ?clip (data ([r, g, b] ! c)) ! i"
      using i lenc by simp
  qed
  moreover have "shape ([r, g, b] ! c) = shape r"
    using c sh by auto
  ultimately show ?thesis
    using \<open>c < 3\<close> len by (simp add: index_last_def np_clip_def s prod_list_rev_nat)
qed

lemma false_color_image_channels_aux:
  assumes "bt ''data_12um'' = Some t12" "bt ''data_11um'' = Some t11" "bt ''cloud_top'' = Some tct"
    and "wf_array t12" "wf_array t11" "wf_array tct"
    and "false_color_image bt = Inr img"
  shows "\<exists>r g b.
           bind_err (np_subtract t12 t11) (\<lambda>d. normalize_range_nd d TDIFF_BOUNDS) = Inr r \<and>
           bind_err (np_subtract t11 tct) (\<lambda>d. normalize_range_nd d CLOUD_TOP_TDIFF_BOUNDS) = Inr g \<and>
           normalize_range_nd t11 T11_BOUNDS = Inr b \<and>
           index_last img 0 = Inr (np_clip r 0 1) \<and>
           index_last img 1 = Inr (np_clip g 0 1) \<and>
           index_last img 2 = Inr (np_clip b 0 1)"
proof -
  from assms(7) [unfolded false_color_image_Inr_iff] assms(1-3)
  obtain d1 r d2 g b s where run:
    "np_subtract t12 t11 = Inr d1" "normalize_range_nd d1 TDIFF_BOUNDS = Inr r"
    "np_subtract t11 tct = Inr d2" "normalize_range_nd d2 CLOUD_TOP_TDIFF_BOUNDS = Inr g"
    "normalize_range_nd t11 T11_BOUNDS = Inr b"
    "np_stack_last [r, g, b] = Inr s" "img = np_clip s 0 1"
    by auto
  from run assms(4-6) have wf: "wf_array r" "wf_array g" "wf_array b"
    by (blast intro: np_subtract_wf normalize_range_nd_wf)+
  have "index_last img 0 = Inr (np_clip r 0 1)" "index_last img 1 = Inr (np_clip g 0 1)"
    "index_last img 2 = Inr (np_clip b 0 1)"
    using stack_channel [OF run(6) wf, of 0] stack_channel [OF run(6) wf, of 1]
      stack_channel [OF run(6) wf, of 2] run(7) by simp_all
  with run show ?thesis by simp
qed


section \<open>Properties of the normalisation\<close>

text \<open>
  Claim C3. For every bounds pair \<open>(lo, hi)\<close> with \<open>hi \<noteq> lo\<close>, \<open>normalize_range\<close>
  maps \<open>lo\<close> to 0 and \<open>hi\<close> to 1, in both notebooks.
\<close>

theorem normalize_range_endpoints:
  assumes "hi \<noteq> lo"
  shows "normalize_range lo (lo, hi) = Inr 0 \<and> normalize_range hi (lo, hi) = Inr 1
       \<and> normalize_range_nc lo (lo, hi) = Inr 0 \<and> normalize_range_nc hi (lo, hi) = Inr 1"
  using assms by (simp add: normalize_range_def normalize_range_nc_def)

theorem normalize_range_endpoints_witness:
  "(5::real) \<noteq> -4 \<and> normalize_range (-4) (-4, 5) = Inr 0 \<and> normalize_range 5 (-4, 5) = Inr 1
   \<and> normalize_range_nc (-4) (-4, 5) = Inr 0 \<and> normalize_range_nc 5 (-4, 5) = Inr 1"
  using normalize_range_endpoints [of 5 "-4"] by simp

text \<open>
  Claim C2, as stated: \<open>normalize_range\<close> clips, so that its value lies between 0 and
  1 for every input. It does not: 400 under the bounds (243, 303) is mapped to 157/60,
  which exceeds 1.
\<close>

theorem normalize_range_clips_counterexample:
  "normalize_range 400 T11_BOUNDS = Inr (157 / 60) \<and> \<not> (157 / 60 \<le> (1::real))"
  by (simp add: normalize_range_def T11_BOUNDS_def)

text \<open>
  Claim C2, amended. For each of the three bounds pairs of the notebooks,
  \<open>normalize_range\<close> maps the lower bound to 0, the upper bound to 1 and every \<open>x\<close> to
  \<open>(x - lo) / (hi - lo)\<close>, unclipped: the value lies between 0 and 1 exactly when \<open>x\<close>
  lies between the bounds. The function of the NetCDF notebook is the same function.
\<close>

theorem normalize_range_unclipped:
  assumes "bounds = T11_BOUNDS \<or> bounds = CLOUD_TOP_TDIFF_BOUNDS \<or> bounds = TDIFF_BOUNDS"
  shows "normalize_range (fst bounds) bounds = Inr 0
       \<and> normalize_range (snd bounds) bounds = Inr 1
       \<and> normalize_range x bounds = Inr ((x - fst bounds) / (snd bounds - fst bounds))
       \<and> ((0 \<le> (x - fst bounds) / (snd bounds - fst bounds)
            \<and> (x - fst bounds) / (snd bounds - fst bounds) \<le> 1)
           = (fst bounds \<le> x \<and> x \<le> snd bounds))
       \<and> normalize_range_nc x bounds = normalize_range x bounds"
  using assms
  by (auto simp: normalize_range_def normalize_range_nc_def T11_BOUNDS_def
      CLOUD_TOP_TDIFF_BOUNDS_def TDIFF_BOUNDS_def field_simps)

theorem normalize_range_unclipped_witness:
  "normalize_range (-4) TDIFF_BOUNDS = Inr 0
   \<and> normalize_range 2 TDIFF_BOUNDS = Inr 1
   \<and> normalize_range 5 TDIFF_BOUNDS = Inr (3 / 2)
   \<and> normalize_range_nc 5 TDIFF_BOUNDS = Inr (3 / 2)"
  using normalize_range_unclipped [of TDIFF_BOUNDS 5]
  by (simp add: TDIFF_BOUNDS_def)

section \<open>Properties of the composite\<close>

text \<open>
  Claim C1. For every dictionary of real-valued arrays, every element of the image that
  \<open>false_color_image\<close> returns (all three channels are its elements) lies in the closed
  interval from 0 to 1, in both notebooks; and the function does return an image, of the
  bands' shape with a last axis of extent 3, when the dictionary holds the three bands it
  reads with one shape.
\<close>

theorem false_color_image_in_unit_interval:
  fixes bt :: "string \<rightharpoonup> real ndarray" and bn :: "int \<rightharpoonup> real ndarray"
  shows "(\<forall>img. false_color_image bt = Inr img \<longrightarrow> (\<forall>x \<in> set (data img). 0 \<le> x \<and> x \<le> 1))
       \<and> (\<forall>img. false_color_image_nc bn = Inr img \<longrightarrow> (\<forall>x \<in> set (data img). 0 \<le> x \<and> x \<le> 1))
       \<and> (\<forall>t12 t11 tct.
             bt ''data_12um'' = Some t12 \<and> bt ''data_11um'' = Some t11 \<and> bt ''cloud_top'' = Some tct
             \<and> shape t12 = shape t11 \<and> shape tct = shape t11
             \<longrightarrow> (\<exists>img. false_color_image bt = Inr img \<and> shape img = shape t11 @ [3]))
       \<and> (\<forall>t12 t11 tct.
             bn 15 = Some t12 \<and> bn 14 = Some t11 \<and> bn 11 = Some tct
             \<and> shape t12 = shape t11 \<and> shape tct = shape t11
             \<longrightarrow> (\<exists>img. false_color_image_nc bn = Inr img \<and> shape img = shape t11 @ [3]))"
proof (intro conjI allI impI ballI)
  fix img x assume "false_color_image bt = Inr img" "x \<in> set (data img)"
  then show "0 \<le> x" "x \<le> 1" using false_color_image_unit by blast+
next
  fix img x assume "false_color_image_nc bn = Inr img" "x \<in> set (data img)"
  then show "0 \<le> x" "x \<le> 1"
    unfolding false_color_image_nc_rename using false_color_image_unit by blast+
next
  fix t12 t11 tct
  assume "bt ''data_12um'' = Some t12 \<and> bt ''data_11um'' = Some t11 \<and> bt ''cloud_top'' = Some tct
           \<and> shape t12 = shape t11 \<and> shape tct = shape t11"
  then show "\<exists>img. false_color_image bt = Inr img \<and> shape img = shape t11 @ [3]"
    using false_color_image_returns by blast
next
  fix t12 t11 tct
  assume "bn 15 = Some t12 \<and> bn 14 = Some t11 \<and> bn 11 = Some tct
           \<and> shape t12 = shape t11 \<and> shape tct = shape t11"
  then show "\<exists>img. false_color_image_nc bn = Inr img \<and> shape img = shape t11 @ [3]"
    unfolding false_color_image_nc_rename
    by (intro false_color_image_returns [where ?t12.0 = t12 and tct = tct]) simp_all
qed

theorem false_color_image_in_unit_interval_witness:
  "false_color_image
     [''data_11um'' \<mapsto> \<lparr>shape = [2], data = [273, 400]\<rparr>,
      ''data_12um'' \<mapsto> \<lparr>shape = [2], data = [273, 273]\<rparr>,
      ''cloud_top'' \<mapsto> \<lparr>shape = [2], data = [273, 100]\<rparr>]
     = Inr \<lparr>shape = [2, 3], data = [2 / 3, 4 / 9, 1 / 2, 0, 1, 1]\<rparr>
   \<and> list_all (\<lambda>x. 0 \<le> x \<and> x \<le> 1) [2 / 3, 4 / 9, 1 / 2, 0, 1, 1 :: real]
   \<and> (\<exists>img. false_color_image_nc
               [14 \<mapsto> \<lparr>shape = [2], data = [273, 400]\<rparr>,
                15 \<mapsto> \<lparr>shape = [2], data = [273, 273]\<rparr>,
                11 \<mapsto> \<lparr>shape = [2], data = [273, 100]\<rparr>] = Inr img
             \<and> shape img = [2, 3] \<and> list_all (\<lambda>x. 0 \<le> x \<and> x \<le> 1) (data img))"
proof -
  let ?bt = "[''data_11um'' \<mapsto> \<lparr>shape = [2], data = [273, 400 :: real]\<rparr>,
              ''data_12um'' \<mapsto> \<lparr>shape = [2], data = [273, 273]\<rparr>,
              ''cloud_top'' \<mapsto> \<lparr>shape = [2], data = [273, 100]\<rparr>]"
  let ?bn = "[14 \<mapsto> \<lparr>shape = [2], data = [273, 400 :: real]\<rparr>,
              15 \<mapsto> \<lparr>shape = [2], data = [273, 273]\<rparr>,
              (11::int) \<mapsto> \<lparr>shape = [2], data = [273, 100]\<rparr>]"
  let ?img = "\<lparr>shape = [2, 3], data = [2 / 3, 4 / 9, 1 / 2, 0, 1, 1 :: real]\<rparr>"
  note inst = false_color_image_in_unit_interval [of ?bt ?bn]
  have run: "false_color_image ?bt = Inr ?img"
    by (simp add: false_color_image_def getitem_def np_subtract_def normalize_range_nd_Inr
        TDIFF_BOUNDS_def CLOUD_TOP_TDIFF_BOUNDS_def T11_BOUNDS_def np_stack_last_def np_clip_def)
  from inst run have "\<forall>x \<in> set (data ?img). 0 \<le> x \<and> x \<le> 1"
    by blast
  then have unit: "list_all (\<lambda>x. 0 \<le> x \<and> x \<le> 1) [2 / 3, 4 / 9, 1 / 2, 0, 1, 1 :: real]"
    by (simp add: list_all_iff)
  from inst have ret: "\<forall>t12 t11 tct.
      ?bn 15 = Some t12 \<and> ?bn 14 = Some t11 \<and> ?bn 11 = Some tct
      \<and> shape t12 = shape t11 \<and> shape tct = shape t11
      \<longrightarrow> (\<exists>img. false_color_image_nc ?bn = Inr img \<and> shape img = shape t11 @ [3])"
    by (elim conjE)
  have "\<exists>img. false_color_image_nc ?bn = Inr img \<and> shape img = [2] @ [3]"
    using ret [rule_format, of "\<lparr>shape = [2], data = [273, 273]\<rparr>"
        "\<lparr>shape = [2], data = [273, 400]\<rparr>" "\<lparr>shape = [2], data = [273, 100]\<rparr>"]
    by simp
  then obtain img where nc: "false_color_image_nc ?bn = Inr img" "shape img = [2, 3]"
    by auto
  with inst have "\<forall>x \<in> set (data img). 0 \<le> x \<and> x \<le> 1"
    by blast
  with nc have "\<exists>img. false_color_image_nc ?bn = Inr img \<and> shape img = [2, 3]
                  \<and> list_all (\<lambda>x. 0 \<le> x \<and> x \<le> 1) (data img)"
    by (auto simp: list_all_iff)
  with run unit show ?thesis by blast
qed

lemma equal_bands_lookup:
  "k \<in> set goes_bands \<Longrightarrow>
   map_of (map (\<lambda>band. (band, \<lparr>shape = [2], data = [273, 273 :: real]\<rparr>)) goes_bands) k
     = Some \<lparr>shape = [2], data = [273, 273]\<rparr>"
  unfolding goes_bands_def by auto

lemma equal_bands_image:
  "false_color_image (map_of (map (\<lambda>band. (band, \<lparr>shape = [2], data = [273, 273]\<rparr>)) goes_bands))
     = Inr \<lparr>shape = [2, 3], data = [2 / 3, 4 / 9, 1 / 2, 2 / 3, 4 / 9, 1 / 2]\<rparr>"
  by (simp add: false_color_image_def getitem_def equal_bands_lookup goes_bands_def
      np_subtract_def normalize_range_nd_Inr TDIFF_BOUNDS_def CLOUD_TOP_TDIFF_BOUNDS_def
      T11_BOUNDS_def np_stack_last_def np_clip_def)

lemma equal_bands_differences:
  "c \<in> set (spec_band_difference_channels
              (map_of (map (\<lambda>band. (band, \<lparr>shape = [2], data = [273, 273]\<rparr>)) goes_bands)) goes_bands)
   \<Longrightarrow> c = Inr \<lparr>shape = [2], data = [2 / 3, 2 / 3]\<rparr> \<or> c = Inr \<lparr>shape = [2], data = [4 / 9, 4 / 9]\<rparr>
       \<or> c = Inr \<lparr>shape = [2], data = [0, 0]\<rparr>"
  unfolding spec_band_difference_channels_def
  by (auto simp: getitem_def equal_bands_lookup np_subtract_def normalize_range_nd_Inr
      TDIFF_BOUNDS_def CLOUD_TOP_TDIFF_BOUNDS_def T11_BOUNDS_def np_clip_def split: if_splits)

text \<open>
  Claim C4, as stated: each of the three channels is the normalisation of a difference
  of two spectral bands, before the final clip. Were it so, each channel of the image
  would be the clipped normalisation of such a difference. The blue channel is not:
  where all nine bands hold the value 273 at both of two pixels, the blue channel is 1/2,
  and no difference of two bands, normalised with any of the three bounds and clipped,
  is 1/2.
\<close>

theorem blue_channel_counterexample:
  "false_color_image (map_of (map (\<lambda>band. (band, \<lparr>shape = [2], data = [273, 273]\<rparr>)) goes_bands))
     = Inr \<lparr>shape = [2, 3], data = [2 / 3, 4 / 9, 1 / 2, 2 / 3, 4 / 9, 1 / 2]\<rparr>
   \<and> index_last \<lparr>shape = [2, 3], data = [2 / 3, 4 / 9, 1 / 2, 2 / 3, 4 / 9, 1 / 2]\<rparr> 2
     = Inr \<lparr>shape = [2], data = [1 / 2, 1 / 2]\<rparr>
   \<and> Inr \<lparr>shape = [2], data = [1 / 2, 1 / 2]\<rparr>
     \<notin> set (spec_band_difference_channels
              (map_of (map (\<lambda>band. (band, \<lparr>shape = [2], data = [273, 273]\<rparr>)) goes_bands)) goes_bands)"
proof -
  have "index_last \<lparr>shape = [2, 3], data = [2 / 3, 4 / 9, 1 / 2, 2 / 3, 4 / 9, 1 / 2]\<rparr> 2
      = Inr \<lparr>shape = [2], data = [1 / 2, 1 / 2]\<rparr>"
    by (simp add: index_last_def upt_conv_Cons)
  moreover have "Inr \<lparr>shape = [2], data = [1 / 2, 1 / 2]\<rparr>
      \<notin> set (spec_band_difference_channels
               (map_of (map (\<lambda>band. (band, \<lparr>shape = [2], data = [273, 273]\<rparr>)) goes_bands))
               goes_bands)"
    using equal_bands_differences [of "Inr \<lparr>shape = [2], data = [1 / 2, 1 / 2]\<rparr>"] by auto
  ultimately show ?thesis
    using equal_bands_image by simp
qed

text \<open>
  Claim C4, amended. Whenever \<open>false_color_image\<close> returns an image of well-formed
  bands, its red channel is the clipped normalisation of the difference
  \<open>data_12um - data_11um\<close> under \<open>TDIFF_BOUNDS\<close>, its green channel the clipped
  normalisation of the difference \<open>data_11um - cloud_top\<close> under
  \<open>CLOUD_TOP_TDIFF_BOUNDS\<close>, and its blue channel the clipped normalisation of the single
  band \<open>data_11um\<close> under \<open>T11_BOUNDS\<close>; in the NetCDF notebook the same holds with the
  bands 15, 14 and 11.
\<close>

theorem false_color_image_channels:
  assumes "bt ''data_12um'' = Some t12" "bt ''data_11um'' = Some t11" "bt ''cloud_top'' = Some tct"
    and "bn 15 = Some t12" "bn 14 = Some t11" "bn 11 = Some tct"
    and "wf_array t12" "wf_array t11" "wf_array tct"
    and "false_color_image bt = Inr img"
  shows "false_color_image_nc bn = Inr img
       \<and> (\<exists>r g b.
            bind_err (np_subtract t12 t11) (\<lambda>d. normalize_range_nd d TDIFF_BOUNDS) = Inr r \<and>
            bind_err (np_subtract t11 tct) (\<lambda>d. normalize_range_nd d CLOUD_TOP_TDIFF_BOUNDS) = Inr g \<and>
            normalize_range_nd t11 T11_BOUNDS = Inr b \<and>
            index_last img 0 = Inr (np_clip r 0 1) \<and>
            index_last img 1 = Inr (np_clip g 0 1) \<and>
            index_last img 2 = Inr (np_clip b 0 1))"
proof
  show "false_color_image_nc bn = Inr img"
    using assms
    by (simp add: false_color_image_nc_rename false_color_image_def getitem_def)
next
  show "\<exists>r g b.
          bind_err (np_subtract t12 t11) (\<lambda>d. normalize_range_nd d TDIFF_BOUNDS) = Inr r \<and>
          bind_err (np_subtract t11 tct) (\<lambda>d. normalize_range_nd d CLOUD_TOP_TDIFF_BOUNDS) = Inr g \<and>
          normalize_range_nd t11 T11_BOUNDS = Inr b \<and>
          index_last img 0 = Inr (np_clip r 0 1) \<and>
          index_last img 1 = Inr (np_clip g 0 1) \<and>
          index_last img 2 = Inr (np_clip b 0 1)"
    using assms(1-3,7-10) by (rule false_color_image_channels_aux)
qed

theorem false_color_image_channels_witness:
  "false_color_image_nc
     [14 \<mapsto> \<lparr>shape = [2], data = [273, 400]\<rparr>,
      15 \<mapsto> \<lparr>shape = [2], data = [273, 273]\<rparr>,
      11 \<mapsto> \<lparr>shape = [2], data = [273, 100]\<rparr>]
     = Inr \<lparr>shape = [2, 3], data = [2 / 3, 4 / 9, 1 / 2, 0, 1, 1]\<rparr>
   \<and> (\<exists>r g b.
        bind_err (np_subtract \<lparr>shape = [2], data = [273, 273]\<rparr> \<lparr>shape = [2], data = [273, 400]\<rparr>)
          (\<lambda>d. normalize_range_nd d TDIFF_BOUNDS) = Inr r \<and>
        bind_err (np_subtract \<lparr>shape = [2], data = [273, 400]\<rparr> \<lparr>shape = [2], data = [273, 100]\<rparr>)
          (\<lambda>d. normalize_range_nd d CLOUD_TOP_TDIFF_BOUNDS) = Inr g \<and>
        normalize_range_nd \<lparr>shape = [2], data = [273, 400]\<rparr> T11_BOUNDS = Inr b \<and>
        index_last \<lparr>shape = [2, 3], data = [2 / 3, 4 / 9, 1 / 2, 0, 1, 1]\<rparr> 0 = Inr (np_clip r 0 1) \<and>
        index_last \<lparr>shape = [2, 3], data = [2 / 3, 4 / 9, 1 / 2, 0, 1, 1]\<rparr> 1 = Inr (np_clip g 0 1) \<and>
        index_last \<lparr>shape = [2, 3], data = [2 / 3, 4 / 9, 1 / 2, 0, 1, 1]\<rparr> 2 = Inr (np_clip b 0 1))"
proof -
  let ?t11 = "\<lparr>shape = [2], data = [273, 400 :: real]\<rparr>"
  let ?t12 = "\<lparr>shape = [2], data = [273, 273 :: real]\<rparr>"
  let ?tct = "\<lparr>shape = [2], data = [273, 100 :: real]\<rparr>"
  let ?bt = "[''data_11um'' \<mapsto> ?t11, ''data_12um'' \<mapsto> ?t12, ''cloud_top'' \<mapsto> ?tct]"
  let ?bn = "[14 \<mapsto> ?t11, 15 \<mapsto> ?t12, (11::int) \<mapsto> ?tct]"
  let ?img = "\<lparr>shape = [2, 3], data = [2 / 3, 4 / 9, 1 / 2, 0, 1, 1 :: real]\<rparr>"
  have run: "false_color_image ?bt = Inr ?img"
    by (simp add: false_color_image_def getitem_def np_subtract_def normalize_range_nd_Inr
        TDIFF_BOUNDS_def CLOUD_TOP_TDIFF_BOUNDS_def T11_BOUNDS_def np_stack_last_def np_clip_def)
  show ?thesis
    by (rule false_color_image_channels [of ?bt ?t12 ?t11 ?tct ?bn ?img])
      (simp_all add: wf_array_def run)
qed

text \<open>
  Claim C5. The two notebooks define the same normalisation and the same three bounds,
  and their composites agree: for every three arrays, \<open>false_color_image\<close> of the
  tfrecords notebook on the dictionary with the keys \<open>data_11um\<close>, \<open>data_12um\<close> and
  \<open>cloud_top\<close> equals \<open>false_color_image\<close> of the NetCDF notebook on the dictionary
  with the keys 14, 15 and 11.
\<close>

theorem notebooks_agree:
  "normalize_range_nc = normalize_range
   \<and> T11_BOUNDS_nc = T11_BOUNDS
   \<and> CLOUD_TOP_TDIFF_BOUNDS_nc = CLOUD_TOP_TDIFF_BOUNDS
   \<and> TDIFF_BOUNDS_nc = TDIFF_BOUNDS
   \<and> false_color_image
        [''data_11um'' \<mapsto> t11um, ''data_12um'' \<mapsto> t12um, ''cloud_top'' \<mapsto> tcloudtop]
     = false_color_image_nc [14 \<mapsto> t11um, 15 \<mapsto> t12um, 11 \<mapsto> tcloudtop]"
  by (simp add: normalize_range_nc_eq bounds_nc_eq false_color_image_nc_rename
      false_color_image_def getitem_def)

text \<open>
  Claim C9. The composite depends on the three bands it reads and on nothing else: two
  dictionaries that agree on \<open>data_12um\<close>, \<open>data_11um\<close> and \<open>cloud_top\<close> (on 15, 14
  and 11 in the NetCDF notebook) give the same result, whatever else they hold.
\<close>

theorem false_color_image_reads_three_bands:
  assumes "bt ''data_12um'' = bt' ''data_12um''"
    and "bt ''data_11um'' = bt' ''data_11um''"
    and "bt ''cloud_top'' = bt' ''cloud_top''"
    and "bn 15 = bn' 15" and "bn 14 = bn' 14" and "bn 11 = bn' 11"
  shows "false_color_image bt = false_color_image bt'
       \<and> false_color_image_nc bn = false_color_image_nc bn'"
  using assms
  by (simp add: false_color_image_def false_color_image_nc_def getitem_def)

theorem false_color_image_reads_three_bands_witness:
  "false_color_image
     [''data_12um'' \<mapsto> \<lparr>shape = [1], data = [270]\<rparr>, ''data_11um'' \<mapsto> \<lparr>shape = [1], data = [273]\<rparr>,
      ''cloud_top'' \<mapsto> \<lparr>shape = [1], data = [271]\<rparr>, ''co2'' \<mapsto> \<lparr>shape = [1], data = [250]\<rparr>]
   = false_color_image
     [''data_12um'' \<mapsto> \<lparr>shape = [1], data = [270]\<rparr>, ''data_11um'' \<mapsto> \<lparr>shape = [1], data = [273]\<rparr>,
      ''cloud_top'' \<mapsto> \<lparr>shape = [1], data = [271]\<rparr>, ''ozone'' \<mapsto> \<lparr>shape = [3], data = [1, 2, 3]\<rparr>]
   \<and> false_color_image_nc
     [15 \<mapsto> \<lparr>shape = [1], data = [270]\<rparr>, 14 \<mapsto> \<lparr>shape = [1], data = [273]\<rparr>,
      11 \<mapsto> \<lparr>shape = [1], data = [271]\<rparr>, 13 \<mapsto> \<lparr>shape = [1], data = [250]\<rparr>]
   = false_color_image_nc
     [15 \<mapsto> \<lparr>shape = [1], data = [270]\<rparr>, 14 \<mapsto> \<lparr>shape = [1], data = [273]\<rparr>,
      11 \<mapsto> \<lparr>shape = [1], data = [271]\<rparr>]"
  by (rule false_color_image_reads_three_bands) simp_all

section \<open>Properties of the brightness temperature\<close>





section \<open>Properties of the visualization loop\<close>

lemma wrap_int64_zero: "wrap_int64 0 = 0"
  by (simp add: wrap_int64_def)

lemma np_sum_nonzero: "np_sum a \<noteq> 0 \<Longrightarrow> sum_list (data a) \<noteq> 0"
  by (auto simp: np_sum_def wrap_int64_zero)

lemma sum_list_all_zero: "\<forall>x \<in> set xs. x = 0 \<Longrightarrow> sum_list xs = (0::int)"
  by (induction xs) auto

lemma np_sum_all_zero: "\<forall>x \<in> set (data a). x = 0 \<Longrightarrow> np_sum a = 0"
  by (simp add: np_sum_def wrap_int64_zero sum_list_all_zero)

lemma as_int32_Inr_iff: "as_int32 t = Inr a \<longleftrightarrow> t = TInt32 a"
  by (cases t) (auto simp: as_int32_def)

lemma squeeze_last_data: "squeeze_last a = Inr b \<Longrightarrow> data b = data a"
  by (auto simp: squeeze_last_def split: list.splits if_splits)

lemma plot_example_mask:
  "plot_example features = Inr fig \<Longrightarrow>
   \<exists>masks. features ''human_pixel_masks'' = Some (TInt32 masks) \<and> data (mask_image fig) = data masks"
  unfolding plot_example_def bind_err_Inr_iff getitem_Inr_iff as_int32_Inr_iff
  by (auto dest: squeeze_last_data)

text \<open>What one iteration does to the state, by the control it returns.\<close>

lemma loop_body_cases:
  assumes "loop_body s r = (s', c)"
  shows "(s' = s \<and> c \<noteq> Break)
       \<or> (\<exists>fig. s' = \<lparr>count = count s + 1, shown = shown s @ [fig]\<rparr>
                \<and> sum_list (data (mask_image fig)) \<noteq> 0
                \<and> c = (if count s + 1 \<ge> 10 then Break else Next))"
proof (cases "bind_err r parse_example")
  case (Inl e)
  with assms show ?thesis by (auto simp: loop_body_def)
next
  case features: (Inr features)
  show ?thesis
  proof (cases "bind_err (getitem features ''human_pixel_masks'') as_int32")
    case (Inl e)
    with assms features show ?thesis by (auto simp: loop_body_def)
  next
    case masks: (Inr masks)
    then have hpm: "features ''human_pixel_masks'' = Some (TInt32 masks)"
      by (auto simp: bind_err_Inr_iff getitem_Inr_iff as_int32_Inr_iff)
    show ?thesis
    proof (cases "np_sum masks = 0")
      case True
      with assms features masks show ?thesis by (auto simp: loop_body_def)
    next
      case nonzero: False
      show ?thesis
      proof (cases "plot_example features")
        case (Inl e)
        with assms features masks nonzero show ?thesis by (auto simp: loop_body_def)
      next
        case (Inr fig)
        from plot_example_mask [OF Inr] hpm have "data (mask_image fig) = data masks" by auto
        with nonzero have "sum_list (data (mask_image fig)) \<noteq> 0"
          using np_sum_nonzero by metis
        with assms features masks nonzero Inr show ?thesis
          by (auto simp: loop_body_def Let_def split: if_splits)
      qed
    qed
  qed
qed

text \<open>
  The loop invariant. At the head of the loop the counter is below 10; after every
  iteration it is at most 10 and counts the figures shown, each of a mask with a nonzero
  sum.
\<close>

lemma loop_states_invariant:
  assumes "count s < 10" "count s = length (shown s)"
    and "\<forall>fig \<in> set (shown s). sum_list (data (mask_image fig)) \<noteq> 0"
  shows "\<forall>s' \<in> set (loop_states s records).
           count s' \<le> 10 \<and> count s' = length (shown s')
           \<and> (\<forall>fig \<in> set (shown s'). sum_list (data (mask_image fig)) \<noteq> 0)"
  using assms
proof (induction records arbitrary: s)
  case Nil
  then show ?case by simp
next
  case (Cons r records)
  obtain s' c where body: "loop_body s r = (s', c)" by (cases "loop_body s r")
  from loop_body_cases [OF body] Cons.prems
  have inv: "count s' \<le> 10" "count s' = length (shown s')"
    "\<forall>fig \<in> set (shown s'). sum_list (data (mask_image fig)) \<noteq> 0"
    and head: "c = Next \<Longrightarrow> count s' < 10"
    by (auto split: if_splits)
  show ?case
  proof (cases c)
    case Next
    from Cons.IH [OF head [OF Next] inv(2,3)] inv body Next show ?thesis by auto
  next
    case Break
    with inv body show ?thesis by simp
  next
    case (Raise e)
    with inv body show ?thesis by simp
  qed
qed

lemma visualization_loop_last:
  "fst (visualization_loop s records) = last (s # loop_states s records)"
proof (induction records arbitrary: s)
  case Nil
  then show ?case by simp
next
  case (Cons r records)
  obtain s' c where body: "loop_body s r = (s', c)" by (cases "loop_body s r")
  with Cons.IH [of s'] show ?case by (cases c) simp_all
qed

lemma visualization_loop_stopped:
  assumes "count s < 10" "snd (visualization_loop s records) = Stopped"
  shows "count (fst (visualization_loop s records)) = 10"
  using assms
proof (induction records arbitrary: s)
  case Nil
  then show ?case by simp
next
  case (Cons r records)
  obtain s' c where body: "loop_body s r = (s', c)" by (cases "loop_body s r")
  show ?case
  proof (cases c)
    case Next
    with loop_body_cases [OF body] Cons.prems(1) have "count s' < 10"
      by (auto split: if_splits)
    with Cons.IH [of s'] Cons.prems(2) body Next show ?thesis by simp
  next
    case Break
    with loop_body_cases [OF body] Cons.prems(1) have "count s' = 10"
      by (auto split: if_splits)
    with body Break show ?thesis by simp
  next
    case (Raise e)
    with Cons.prems(2) body show ?thesis by simp
  qed
qed

lemma visualization_loop_stops_early:
  "snd (visualization_loop s records) = Stopped \<Longrightarrow>
   visualization_loop s (records @ rest) = visualization_loop s records"
proof (induction records arbitrary: s)
  case Nil
  then show ?case by simp
next
  case (Cons r records)
  obtain s' c where body: "loop_body s r = (s', c)" by (cases "loop_body s r")
  with Cons show ?case by (cases c) simp_all
qed

lemma loop_body_skips_zero_mask:
  assumes "parse_example serialized = Inr features"
    and "features ''human_pixel_masks'' = Some (TInt32 masks)"
    and "\<forall>x \<in> set (data masks). x = 0"
  shows "loop_body s (Inr serialized) = (s, Next)"
  using assms np_sum_all_zero [of masks]
  by (simp add: loop_body_def getitem_def as_int32_def)

lemma loop_body_shows:
  assumes "parse_example serialized = Inr features"
    and "features ''human_pixel_masks'' = Some (TInt32 masks)"
    and "np_sum masks \<noteq> 0"
    and "plot_example features = Inr fig"
  shows "loop_body s (Inr serialized) =
           (\<lparr>count = count s + 1, shown = shown s @ [fig]\<rparr>,
            if 10 \<le> count s + 1 then Break else Next)"
  using assms by (simp add: loop_body_def getitem_def as_int32_def Let_def)

lemma visualization_loop_replicate:
  assumes "\<And>s. loop_body s r =
             (\<lparr>count = count s + 1, shown = shown s @ [fig]\<rparr>,
              if 10 \<le> count s + 1 then Break else Next)"
    and "count s + n = 10" and "0 < n"
  shows "visualization_loop s (replicate n r @ rest) =
           (\<lparr>count = 10, shown = shown s @ replicate n fig\<rparr>, Stopped)"
  using assms(2,3)
proof (induction n arbitrary: s)
  case 0
  then show ?case by simp
next
  case (Suc n)
  show ?case
  proof (cases "n = 0")
    case True
    with Suc.prems show ?thesis by (simp add: assms(1))
  next
    case False
    with Suc.prems have "\<not> 10 \<le> count s + 1" by simp
    moreover have "visualization_loop \<lparr>count = count s + 1, shown = shown s @ [fig]\<rparr>
        (replicate n r @ rest)
        = (\<lparr>count = 10, shown = (shown s @ [fig]) @ replicate n fig\<rparr>, Stopped)"
      using Suc.IH [of "\<lparr>count = count s + 1, shown = shown s @ [fig]\<rparr>"] Suc.prems False
      by simp
    ultimately show ?thesis
      by (simp add: assms(1) replicate_app_Cons_same)
  qed
qed

text \<open>
  Claim C10. The visualization loop shows only examples whose \<open>human_pixel_masks\<close> sum
  to a nonzero total, and an example whose mask is zero everywhere is skipped with the
  state unchanged; after every iteration the counter is at most 10 and equals the number
  of figures shown; the loop ends, on every list of records, with at most 10 figures
  shown, and where it ends by \<open>break\<close> the counter is 10 and no further record is
  read.
\<close>

theorem visualization_loop_shows_at_most_ten:
  "(\<forall>fig \<in> set (shown (fst (visualization_cell records))).
      sum_list (data (mask_image fig)) \<noteq> 0)
   \<and> (\<forall>s serialized features masks.
        parse_example serialized = Inr features
        \<and> features ''human_pixel_masks'' = Some (TInt32 masks)
        \<and> (\<forall>x \<in> set (data masks). x = 0)
        \<longrightarrow> loop_body s (Inr serialized) = (s, Next))
   \<and> (\<forall>s \<in> set (loop_states \<lparr>count = 0, shown = []\<rparr> records).
        count s \<le> 10 \<and> count s = length (shown s))
   \<and> fst (visualization_cell records) = last (\<lparr>count = 0, shown = []\<rparr> # loop_states \<lparr>count = 0, shown = []\<rparr> records)
   \<and> length (shown (fst (visualization_cell records))) \<le> 10
   \<and> (snd (visualization_cell records) = Stopped
        \<longrightarrow> count (fst (visualization_cell records)) = 10
          \<and> (\<forall>rest. visualization_cell (records @ rest) = visualization_cell records))"
proof -
  let ?s0 = "\<lparr>count = 0, shown = []\<rparr>"
  have inv: "\<forall>s' \<in> set (loop_states ?s0 records).
      count s' \<le> 10 \<and> count s' = length (shown s')
      \<and> (\<forall>fig \<in> set (shown s'). sum_list (data (mask_image fig)) \<noteq> 0)"
    by (rule loop_states_invariant) simp_all
  have last: "fst (visualization_cell records) = last (?s0 # loop_states ?s0 records)"
    unfolding visualization_cell_def by (rule visualization_loop_last)
  have final: "count (fst (visualization_cell records)) \<le> 10
      \<and> count (fst (visualization_cell records)) = length (shown (fst (visualization_cell records)))
      \<and> (\<forall>fig \<in> set (shown (fst (visualization_cell records))).
            sum_list (data (mask_image fig)) \<noteq> 0)"
  proof (cases "loop_states ?s0 records = []")
    case True
    with last show ?thesis by simp
  next
    case False
    then have "last (?s0 # loop_states ?s0 records) \<in> set (loop_states ?s0 records)"
      by simp
    with inv last show ?thesis by metis
  qed
  have stop: "snd (visualization_cell records) = Stopped
      \<longrightarrow> count (fst (visualization_cell records)) = 10
        \<and> (\<forall>rest. visualization_cell (records @ rest) = visualization_cell records)"
    unfolding visualization_cell_def
    using visualization_loop_stopped [of ?s0 records] visualization_loop_stops_early [of ?s0 records]
    by simp
  have skip: "\<forall>s serialized features masks.
      parse_example serialized = Inr features
      \<and> features ''human_pixel_masks'' = Some (TInt32 masks)
      \<and> (\<forall>x \<in> set (data masks). x = 0)
      \<longrightarrow> loop_body s (Inr serialized) = (s, Next)"
    using loop_body_skips_zero_mask by blast
  have states: "\<forall>s \<in> set (loop_states ?s0 records). count s \<le> 10 \<and> count s = length (shown s)"
    using inv by blast
  have figs: "\<forall>fig \<in> set (shown (fst (visualization_cell records))).
      sum_list (data (mask_image fig)) \<noteq> 0"
    using final by blast
  have len: "length (shown (fst (visualization_cell records))) \<le> 10"
    using final by simp
  show ?thesis
    using figs skip states last len stop by (intro conjI)
qed

theorem visualization_loop_shows_at_most_ten_witness:
  "(let ex = (\<lambda>m. Some (map_of
       [(''upper_vapor'', BytesList [DoubleProto \<lparr>shape = [1, 1, 1], data = [230]\<rparr>]),
        (''mid_vapor'', BytesList [DoubleProto \<lparr>shape = [1, 1, 1], data = [240]\<rparr>]),
        (''low_vapor'', BytesList [DoubleProto \<lparr>shape = [1, 1, 1], data = [250]\<rparr>]),
        (''cloud_top'', BytesList [DoubleProto \<lparr>shape = [1, 1, 1], data = [272]\<rparr>]),
        (''ozone'', BytesList [DoubleProto \<lparr>shape = [1, 1, 1], data = [260]\<rparr>]),
        (''data_10um'', BytesList [DoubleProto \<lparr>shape = [1, 1, 1], data = [274]\<rparr>]),
        (''data_11um'', BytesList [DoubleProto \<lparr>shape = [1, 1, 1], data = [273]\<rparr>]),
        (''data_12um'', BytesList [DoubleProto \<lparr>shape = [1, 1, 1], data = [271]\<rparr>]),
        (''co2'', BytesList [DoubleProto \<lparr>shape = [1, 1, 1], data = [255]\<rparr>]),
        (''brightness_temperature_difference'',
           BytesList [DoubleProto \<lparr>shape = [1, 1, 1], data = [2]\<rparr>]),
        (''human_individual_masks'',
           BytesList [Int32Proto \<lparr>shape = [1, 1, 1, 1], data = [m]\<rparr>]),
        (''human_pixel_masks'', BytesList [Int32Proto \<lparr>shape = [1, 1, 1], data = [m]\<rparr>]),
        (''n_times_before'', Int64List [0]),
        (''n_times_after'', Int64List [0]),
        (''projection_wkt'', BytesList [Opaque ''PROJCS'']),
        (''col_min'', FloatList [0]),
        (''row_min'', FloatList [0]),
        (''col_size'', FloatList [1]),
        (''row_size'', FloatList [1]),
        (''timestamp'', Int64List [1682745713])]));
        records = Inr (ex 0) # replicate 11 (Inr (ex 1));
        fig = \<lparr>image = \<lparr>shape = [1, 1, 3], data = [1 / 3, 5 / 9, 1 / 2]\<rparr>,
               mask_image = \<lparr>shape = [1, 1], data = [1]\<rparr>\<rparr>
    in visualization_cell records = (\<lparr>count = 10, shown = replicate 10 fig\<rparr>, Stopped)
       \<and> loop_body \<lparr>count = 0, shown = []\<rparr> (Inr (ex 0)) = (\<lparr>count = 0, shown = []\<rparr>, Next)
       \<and> list_all (\<lambda>fig. sum_list (data (mask_image fig)) \<noteq> 0)
            (shown (fst (visualization_cell records)))
       \<and> list_all (\<lambda>s. count s \<le> 10 \<and> count s = length (shown s))
            (loop_states \<lparr>count = 0, shown = []\<rparr> records)
       \<and> count (fst (visualization_cell records)) = 10)"
proof -
  let ?ex = "(\<lambda>m. Some (map_of
       [(''upper_vapor'', BytesList [DoubleProto \<lparr>shape = [1, 1, 1], data = [230]\<rparr>]),
        (''mid_vapor'', BytesList [DoubleProto \<lparr>shape = [1, 1, 1], data = [240]\<rparr>]),
        (''low_vapor'', BytesList [DoubleProto \<lparr>shape = [1, 1, 1], data = [250]\<rparr>]),
        (''cloud_top'', BytesList [DoubleProto \<lparr>shape = [1, 1, 1], data = [272]\<rparr>]),
        (''ozone'', BytesList [DoubleProto \<lparr>shape = [1, 1, 1], data = [260]\<rparr>]),
        (''data_10um'', BytesList [DoubleProto \<lparr>shape = [1, 1, 1], data = [274]\<rparr>]),
        (''data_11um'', BytesList [DoubleProto \<lparr>shape = [1, 1, 1], data = [273]\<rparr>]),
        (''data_12um'', BytesList [DoubleProto \<lparr>shape = [1, 1, 1], data = [271]\<rparr>]),
        (''co2'', BytesList [DoubleProto \<lparr>shape = [1, 1, 1], data = [255]\<rparr>]),
        (''brightness_temperature_difference'',
           BytesList [DoubleProto \<lparr>shape = [1, 1, 1], data = [2]\<rparr>]),
        (''human_individual_masks'',
           BytesList [Int32Proto \<lparr>shape = [1, 1, 1, 1], data = [m]\<rparr>]),
        (''human_pixel_masks'', BytesList [Int32Proto \<lparr>shape = [1, 1, 1], data = [m]\<rparr>]),
        (''n_times_before'', Int64List [0]),
        (''n_times_after'', Int64List [0]),
        (''projection_wkt'', BytesList [Opaque ''PROJCS'']),
        (''col_min'', FloatList [0]),
        (''row_min'', FloatList [0]),
        (''col_size'', FloatList [1]),
        (''row_size'', FloatList [1]),
        (''timestamp'', Int64List [1682745713])]))"
  let ?records = "Inr (?ex 0) # replicate 11 (Inr (?ex 1))"
  let ?fig = "\<lparr>image = \<lparr>shape = [1, 1, 3], data = [1 / 3, 5 / 9, 1 / 2 :: real]\<rparr>,
               mask_image = \<lparr>shape = [1, 1], data = [1 :: int]\<rparr>\<rparr>"
  let ?s0 = "\<lparr>count = 0, shown = []\<rparr>"
  note inst = visualization_loop_shows_at_most_ten [of ?records]
  have "\<exists>features. parse_example (?ex m) = Inr features
      \<and> features ''human_pixel_masks'' = Some (TInt32 \<lparr>shape = [1, 1, 1], data = [m]\<rparr>)
      \<and> features ''n_times_before'' = Some (TInt64 0)
      \<and> float_arrays features ''data_11um'' = Some \<lparr>shape = [1, 1, 1], data = [273]\<rparr>
      \<and> float_arrays features ''data_12um'' = Some \<lparr>shape = [1, 1, 1], data = [271]\<rparr>
      \<and> float_arrays features ''cloud_top'' = Some \<lparr>shape = [1, 1, 1], data = [272]\<rparr>" for m
    by (simp add: parse_example_def parse_single_example_def feature_spec_def goes_bands_def
        decode_key_def getitem_def float_arrays_def)
  note parse = this
  from parse [of 0] obtain features0 where parsed0:
    "parse_example (?ex 0) = Inr features0"
    "features0 ''human_pixel_masks'' = Some (TInt32 \<lparr>shape = [1, 1, 1], data = [0]\<rparr>)"
    by (elim exE conjE)
  from parse [of 1] obtain features1 where parsed:
    "parse_example (?ex 1) = Inr features1"
    "features1 ''human_pixel_masks'' = Some (TInt32 \<lparr>shape = [1, 1, 1], data = [1]\<rparr>)"
    "features1 ''n_times_before'' = Some (TInt64 0)"
    "float_arrays features1 ''data_11um'' = Some \<lparr>shape = [1, 1, 1], data = [273]\<rparr>"
    "float_arrays features1 ''data_12um'' = Some \<lparr>shape = [1, 1, 1], data = [271]\<rparr>"
    "float_arrays features1 ''cloud_top'' = Some \<lparr>shape = [1, 1, 1], data = [272]\<rparr>"
    by (elim exE conjE)
  from inst have "\<forall>s serialized features masks.
        parse_example serialized = Inr features
        \<and> features ''human_pixel_masks'' = Some (TInt32 masks)
        \<and> (\<forall>x \<in> set (data masks). x = 0)
        \<longrightarrow> loop_body s (Inr serialized) = (s, Next)"
    by (elim conjE)
  from this [rule_format, of "?ex 0" features0 "\<lparr>shape = [1, 1, 1], data = [0]\<rparr>" ?s0] parsed0
  have zero: "loop_body ?s0 (Inr (?ex 0)) = (?s0, Next)"
    by simp
  have composite: "false_color_image (float_arrays features1)
      = Inr \<lparr>shape = [1, 1, 1, 3], data = [1 / 3, 5 / 9, 1 / 2]\<rparr>"
    by (simp add: false_color_image_def getitem_def parsed np_subtract_def normalize_range_nd_Inr
        TDIFF_BOUNDS_def CLOUD_TOP_TDIFF_BOUNDS_def T11_BOUNDS_def np_stack_last_def np_clip_def)
  have plot: "plot_example features1 = Inr ?fig"
    by (simp add: plot_example_def getitem_def parsed as_int64_def as_int32_def composite
        index_before_last_def imshow_def squeeze_last_def)
  have one: "loop_body s (Inr (?ex 1)) =
      (\<lparr>count = count s + 1, shown = shown s @ [?fig]\<rparr>,
       if 10 \<le> count s + 1 then Break else Next)" for s
    by (rule loop_body_shows [OF parsed(1) parsed(2) _ plot])
      (simp add: np_sum_def wrap_int64_def)
  have "visualization_loop ?s0 (replicate 10 (Inr (?ex 1)) @ [Inr (?ex 1)])
      = (\<lparr>count = 10, shown = shown ?s0 @ replicate 10 ?fig\<rparr>, Stopped)"
    by (rule visualization_loop_replicate [OF one]) simp_all
  moreover have "replicate 11 r = replicate 10 r @ [r]" for r :: "error + example"
    by (simp add: eval_nat_numeral)
  ultimately have "visualization_loop ?s0 (replicate 11 (Inr (?ex 1)))
      = (\<lparr>count = 10, shown = replicate 10 ?fig\<rparr>, Stopped)"
    by (simp only: vis_state.simps append_Nil)
  then have run: "visualization_cell ?records = (\<lparr>count = 10, shown = replicate 10 ?fig\<rparr>, Stopped)"
    using zero by (simp only: visualization_cell_def visualization_loop.simps prod.case control.case)
  from inst have figs: "list_all (\<lambda>fig. sum_list (data (mask_image fig)) \<noteq> 0)
      (shown (fst (visualization_cell ?records)))"
    unfolding list_all_iff by (elim conjE)
  from inst have states: "list_all (\<lambda>s. count s \<le> 10 \<and> count s = length (shown s))
      (loop_states ?s0 ?records)"
    unfolding list_all_iff by (elim conjE)
  from inst have stop: "snd (visualization_cell ?records) = Stopped
      \<longrightarrow> count (fst (visualization_cell ?records)) = 10
        \<and> (\<forall>rest. visualization_cell (?records @ rest) = visualization_cell ?records)"
    by (elim conjE)
  have "snd (visualization_cell ?records) = Stopped"
    unfolding run by (rule snd_conv)
  with stop have ten: "count (fst (visualization_cell ?records)) = 10"
    by (elim impE conjE)
  show ?thesis
    unfolding Let_def using run zero figs states ten by (intro conjI)
qed

section \<open>Properties of the parser\<close>

lemma parse_feature_kind:
  "parse_feature conf f = Inr t \<Longrightarrow>
   (dtype_of t, is_sparse t) =
     (case conf of FixedLenFeature sh dt \<Rightarrow> (dt, False) | VarLenFeature dt \<Rightarrow> (dt, True))"
  by (induction conf f rule: parse_feature.induct) auto

lemma parse_features_Inr:
  "parse_features fs spec = Inr m \<Longrightarrow>
   (\<forall>k. m k = (case map_of spec k of
                  None \<Rightarrow> None
                | Some conf \<Rightarrow> (case parse_feature conf (fs k) of Inl e \<Rightarrow> None | Inr t \<Rightarrow> Some t)))
   \<and> (\<forall>(k, conf) \<in> set spec. \<exists>t. parse_feature conf (fs k) = Inr t)"
proof (induction spec arbitrary: m)
  case Nil
  then show ?case by auto
next
  case (Cons p spec)
  obtain name conf where p: "p = (name, conf)" by (cases p)
  from Cons.prems p obtain t m' where
    t: "parse_feature conf (fs name) = Inr t" and m': "parse_features fs spec = Inr m'"
    and m: "m = m'(name \<mapsto> t)"
    by (auto simp: bind_err_Inr_iff)
  from Cons.IH [OF m'] t m p show ?case by auto
qed

lemma parse_features_returns:
  "\<forall>(k, conf) \<in> set spec. \<exists>t. parse_feature conf (fs k) = Inr t \<Longrightarrow>
   \<exists>m. parse_features fs spec = Inr m"
  by (induction spec) auto

lemma parse_tensor_kind:
  "parse_tensor s out_type = Inr t \<Longrightarrow> dtype_of t = out_type \<and> \<not> is_sparse t"
  by (induction s out_type rule: parse_tensor.induct) auto

lemma decode_key_Inr:
  "decode_key key out_type features = Inr features' \<Longrightarrow>
   \<exists>s t. features key = Some s \<and> parse_tensor s out_type = Inr t \<and> features' = features(key \<mapsto> t)"
  by (auto simp: decode_key_def bind_err_Inr_iff getitem_Inr_iff)

lemma decode_keys_Inr:
  "decode_keys keys out_type features = Inr features' \<Longrightarrow>
   (\<forall>k. k \<notin> set keys \<longrightarrow> features' k = features k)
   \<and> (\<forall>k \<in> set keys. \<exists>t. features' k = Some t \<and> dtype_of t = out_type \<and> \<not> is_sparse t)"
proof (induction keys arbitrary: features)
  case Nil
  then show ?case by simp
next
  case (Cons key keys)
  from Cons.prems obtain features1 where
    first: "decode_key key out_type features = Inr features1"
    and rest: "decode_keys keys out_type features1 = Inr features'"
    by (auto simp: bind_err_Inr_iff)
  from decode_key_Inr [OF first] obtain s t where
    t: "parse_tensor s out_type = Inr t" and f1: "features1 = features(key \<mapsto> t)"
    by auto
  from Cons.IH [OF rest] have
    other: "\<forall>k. k \<notin> set keys \<longrightarrow> features' k = features1 k"
    and decoded: "\<forall>k \<in> set keys. \<exists>t. features' k = Some t \<and> dtype_of t = out_type \<and> \<not> is_sparse t"
    by auto
  show ?case
  proof (intro conjI allI impI ballI)
    fix k assume "k \<notin> set (key # keys)"
    with other f1 show "features' k = features k" by simp
  next
    fix k assume k: "k \<in> set (key # keys)"
    show "\<exists>t. features' k = Some t \<and> dtype_of t = out_type \<and> \<not> is_sparse t"
    proof (cases "k \<in> set keys")
      case True
      with decoded show ?thesis by blast
    next
      case False
      with k have "k = key" by simp
      with False other f1 parse_tensor_kind [OF t] show ?thesis by simp
    qed
  qed
qed

lemma decode_key_returns:
  "features key = Some (TString b) \<Longrightarrow> parse_tensor (TString b) out_type = Inr t \<Longrightarrow>
   decode_key key out_type features = Inr (features(key \<mapsto> t))"
  by (simp add: decode_key_def getitem_def)

lemma decode_keys_returns:
  "distinct keys \<Longrightarrow>
   \<forall>k \<in> set keys. \<exists>b t. features k = Some (TString b) \<and> parse_tensor (TString b) out_type = Inr t \<Longrightarrow>
   \<exists>features'. decode_keys keys out_type features = Inr features'"
proof (induction keys arbitrary: features)
  case Nil
  then show ?case by simp
next
  case (Cons key keys)
  from Cons.prems(2) obtain b t where
    b: "features key = Some (TString b)" and t: "parse_tensor (TString b) out_type = Inr t"
    by auto
  from Cons.prems have distinct: "distinct keys" and
    later: "\<forall>k \<in> set keys. \<exists>b' t'. (features(key \<mapsto> t)) k = Some (TString b')
        \<and> parse_tensor (TString b') out_type = Inr t'"
    by auto
  from Cons.IH [OF distinct later]
  obtain features' where "decode_keys keys out_type (features(key \<mapsto> t)) = Inr features'"
    by blast
  moreover have "decode_key key out_type features = Inr (features(key \<mapsto> t))"
    using b t by (rule decode_key_returns)
  ultimately show ?case by simp
qed

lemma parse_features_kind:
  assumes "parse_features fs spec = Inr m"
  shows "map_option (\<lambda>t. (dtype_of t, is_sparse t)) (m k) =
         map_option (\<lambda>conf. case conf of FixedLenFeature sh dt \<Rightarrow> (dt, False)
                                          | VarLenFeature dt \<Rightarrow> (dt, True))
           (map_of spec k)"
proof (cases "map_of spec k")
  case None
  with parse_features_Inr [OF assms] show ?thesis by simp
next
  case (Some conf)
  then have "(k, conf) \<in> set spec" by (rule map_of_SomeD)
  with parse_features_Inr [OF assms] obtain t where t: "parse_feature conf (fs k) = Inr t"
    by blast
  with parse_features_Inr [OF assms] Some have "m k = Some t" by simp
  with parse_feature_kind [OF t] Some show ?thesis by simp
qed

lemma schema_of_bands:
  assumes "k \<in> set (goes_bands @ [''brightness_temperature_difference''])"
  shows "map_of spec_record_schema k = Some (DT_DOUBLE, False)"
proof -
  have "list_all (\<lambda>k. map_of spec_record_schema k = Some (DT_DOUBLE, False))
          (goes_bands @ [''brightness_temperature_difference''])"
    by (simp add: goes_bands_def spec_record_schema_def)
  with assms show ?thesis by (simp only: list_all_iff)
qed

lemma schema_of_masks:
  "map_of spec_record_schema ''human_pixel_masks'' = Some (DT_INT32, False)"
  "map_of spec_record_schema ''human_individual_masks'' = Some (DT_INT32, False)"
  by (simp_all add: spec_record_schema_def)

lemma schema_of_others:
  "k \<notin> set (goes_bands @ [''brightness_temperature_difference'']) \<Longrightarrow>
   k \<noteq> ''human_pixel_masks'' \<Longrightarrow> k \<noteq> ''human_individual_masks'' \<Longrightarrow>
   map_option (\<lambda>conf. case conf of FixedLenFeature sh dt \<Rightarrow> (dt, False)
                                    | VarLenFeature dt \<Rightarrow> (dt, True))
     (map_of feature_spec k)
   = map_of spec_record_schema k"
  by (simp add: goes_bands_def feature_spec_def spec_record_schema_def)

lemma parse_example_kinds:
  assumes "parse_example serialized = Inr features"
  shows "map_option (\<lambda>t. (dtype_of t, is_sparse t)) (features k) = map_of spec_record_schema k"
proof -
  let ?bands = "goes_bands @ [''brightness_temperature_difference'']"
  from assms obtain fs f0 f1 f2 where
    f0: "parse_features fs feature_spec = Inr f0"
    and f1: "decode_keys ?bands DT_DOUBLE f0 = Inr f1"
    and f2: "decode_key ''human_pixel_masks'' DT_INT32 f1 = Inr f2"
    and f3: "decode_key ''human_individual_masks'' DT_INT32 f2 = Inr features"
    by (auto simp: parse_example_def parse_single_example_def bind_err_Inr_iff split: option.splits)
  from decode_key_Inr [OF f2] obtain s2 t2 where
    t2: "parse_tensor s2 DT_INT32 = Inr t2" "f2 = f1(''human_pixel_masks'' \<mapsto> t2)"
    by auto
  from decode_key_Inr [OF f3] obtain s3 t3 where
    t3: "parse_tensor s3 DT_INT32 = Inr t3" "features = f2(''human_individual_masks'' \<mapsto> t3)"
    by auto
  note bands = decode_keys_Inr [OF f1]
  consider (individual) "k = ''human_individual_masks''"
    | (pixel) "k = ''human_pixel_masks''"
    | (band) "k \<in> set ?bands"
    | (other) "k \<notin> set ?bands" "k \<noteq> ''human_pixel_masks''" "k \<noteq> ''human_individual_masks''"
    by blast
  then show ?thesis
  proof cases
    case individual
    with t3 parse_tensor_kind [OF t3(1)] schema_of_masks show ?thesis by simp
  next
    case pixel
    with t2 t3 parse_tensor_kind [OF t2(1)] schema_of_masks show ?thesis by simp
  next
    case band
    then have "k \<noteq> ''human_pixel_masks''" "k \<noteq> ''human_individual_masks''"
      by (auto simp: goes_bands_def)
    with t2 t3 have "features k = f1 k" by simp
    with bands band schema_of_bands [OF band] show ?thesis by auto
  next
    case other
    with t2 t3 bands have "features k = f0 k" by simp
    with parse_features_kind [OF f0, of k] schema_of_others [OF other] show ?thesis by simp
  qed
qed

lemma feature_spec_strings:
  assumes "k \<in> set (goes_bands @ [''brightness_temperature_difference'',
                                   ''human_pixel_masks'', ''human_individual_masks''])"
  shows "map_of feature_spec k = Some (FixedLenFeature [] DT_STRING)"
proof -
  have "list_all (\<lambda>k. map_of feature_spec k = Some (FixedLenFeature [] DT_STRING))
          (goes_bands @ [''brightness_temperature_difference'',
                         ''human_pixel_masks'', ''human_individual_masks''])"
    by (simp add: goes_bands_def feature_spec_def)
  with assms show ?thesis by (simp only: list_all_iff)
qed

lemma parse_features_string:
  assumes "parse_features fs feature_spec = Inr f0"
    and "k \<in> set (goes_bands @ [''brightness_temperature_difference'',
                                  ''human_pixel_masks'', ''human_individual_masks''])"
    and "fs k = Some (BytesList [b])"
  shows "f0 k = Some (TString b)"
  using parse_features_Inr [OF assms(1)] feature_spec_strings [OF assms(2)] assms(3)
  by simp

lemma parse_example_returns:
  assumes "serialized = Some fs"
    and bands: "\<forall>k \<in> set (goes_bands @ [''brightness_temperature_difference'']).
                  \<exists>a. fs k = Some (BytesList [DoubleProto a])"
    and masks: "\<forall>k \<in> {''human_pixel_masks'', ''human_individual_masks''}.
                  \<exists>a. fs k = Some (BytesList [Int32Proto a])"
    and ints: "\<forall>k \<in> {''n_times_before'', ''n_times_after'', ''timestamp''}.
                  \<exists>v. fs k = Some (Int64List [v])"
    and wkt: "\<exists>b. fs ''projection_wkt'' = Some (BytesList [b])"
    and floats: "\<forall>k \<in> {''col_min'', ''row_min'', ''col_size'', ''row_size''}.
                  \<exists>v. fs k = Some (FloatList [v])"
    and scan: "fs ''satellite_scan_starts'' = None
               \<or> (\<exists>vs. fs ''satellite_scan_starts'' = Some (Int64List vs))"
  shows "\<exists>features. parse_example serialized = Inr features"
proof -
  let ?bands = "goes_bands @ [''brightness_temperature_difference'']"
  have strings: "\<forall>k \<in> set (?bands @ [''human_pixel_masks'', ''human_individual_masks'', ''projection_wkt'']).
      \<exists>t. parse_feature (FixedLenFeature [] DT_STRING) (fs k) = Inr t"
    using bands masks wkt by auto
  have int64s: "\<forall>k \<in> {''n_times_before'', ''n_times_after'', ''timestamp''}.
      \<exists>t. parse_feature (FixedLenFeature [] DT_INT64) (fs k) = Inr t"
    using ints by auto
  have float32s: "\<forall>k \<in> {''col_min'', ''row_min'', ''col_size'', ''row_size''}.
      \<exists>t. parse_feature (FixedLenFeature [] DT_FLOAT) (fs k) = Inr t"
    using floats by auto
  have sparse: "\<exists>t. parse_feature (VarLenFeature DT_INT64) (fs ''satellite_scan_starts'') = Inr t"
    using scan by auto
  have "\<forall>(k, conf) \<in> set feature_spec. \<exists>t. parse_feature conf (fs k) = Inr t"
    using strings int64s float32s sparse
    by (simp add: feature_spec_def goes_bands_def)
  then obtain f0 where f0: "parse_features fs feature_spec = Inr f0"
    using parse_features_returns by blast
  have "distinct ?bands"
    by (simp add: goes_bands_def)
  moreover have "\<forall>k \<in> set ?bands. \<exists>b t. f0 k = Some (TString b)
      \<and> parse_tensor (TString b) DT_DOUBLE = Inr t"
  proof
    fix k assume k: "k \<in> set ?bands"
    with bands obtain a where "fs k = Some (BytesList [DoubleProto a])" by blast
    moreover from k have "k \<in> set (goes_bands @ [''brightness_temperature_difference'',
        ''human_pixel_masks'', ''human_individual_masks''])" by auto
    ultimately have "f0 k = Some (TString (DoubleProto a))"
      using parse_features_string [OF f0] by blast
    then show "\<exists>b t. f0 k = Some (TString b) \<and> parse_tensor (TString b) DT_DOUBLE = Inr t"
      by simp
  qed
  ultimately obtain f1 where f1: "decode_keys ?bands DT_DOUBLE f0 = Inr f1"
    using decode_keys_returns by blast
  have notband: "''human_pixel_masks'' \<notin> set ?bands" "''human_individual_masks'' \<notin> set ?bands"
    by (simp_all add: goes_bands_def)
  from masks obtain a2 a3 where
    "fs ''human_pixel_masks'' = Some (BytesList [Int32Proto a2])"
    "fs ''human_individual_masks'' = Some (BytesList [Int32Proto a3])"
    by auto
  then have "f0 ''human_pixel_masks'' = Some (TString (Int32Proto a2))"
    "f0 ''human_individual_masks'' = Some (TString (Int32Proto a3))"
    using parse_features_string [OF f0] by simp_all
  with decode_keys_Inr [OF f1] notband have
    m2: "f1 ''human_pixel_masks'' = Some (TString (Int32Proto a2))"
    and m3: "f1 ''human_individual_masks'' = Some (TString (Int32Proto a3))"
    by simp_all
  have f2: "decode_key ''human_pixel_masks'' DT_INT32 f1
      = Inr (f1(''human_pixel_masks'' \<mapsto> TInt32 a2))"
    using m2 by (simp add: decode_key_def getitem_def)
  have f3: "decode_key ''human_individual_masks'' DT_INT32 (f1(''human_pixel_masks'' \<mapsto> TInt32 a2))
      = Inr (f1(''human_pixel_masks'' \<mapsto> TInt32 a2, ''human_individual_masks'' \<mapsto> TInt32 a3))"
    using m3 by (simp add: decode_key_def getitem_def)
  show ?thesis
    using assms(1) f0 f1 f2 f3
    by (simp add: parse_example_def parse_single_example_def)
qed

lemma parse_feature_value:
  "parse_feature conf f = Inr t \<Longrightarrow>
   (case conf of
      FixedLenFeature sh dt \<Rightarrow>
        (dt = DT_STRING \<and> (\<exists>b. f = Some (BytesList [b]) \<and> t = TString b))
        \<or> (dt = DT_INT64 \<and> (\<exists>v. f = Some (Int64List [v]) \<and> t = TInt64 v))
        \<or> (dt = DT_FLOAT \<and> (\<exists>v. f = Some (FloatList [v]) \<and> t = TFloat32 v))
    | VarLenFeature dt \<Rightarrow>
        (f = None \<and> t = TSparseInt64 [])
        \<or> (\<exists>vs. f = Some (Int64List vs) \<and> t = TSparseInt64 vs))"
  by (induction conf f rule: parse_feature.induct) auto

lemma parse_tensor_value:
  "parse_tensor s out_type = Inr t \<Longrightarrow>
   (out_type = DT_DOUBLE \<and> (\<exists>a. s = TString (DoubleProto a) \<and> t = TDouble a))
   \<or> (out_type = DT_INT32 \<and> (\<exists>a. s = TString (Int32Proto a) \<and> t = TInt32 a))"
  by (induction s out_type rule: parse_tensor.induct) auto

lemma decode_keys_values:
  "distinct keys \<Longrightarrow> decode_keys keys out_type features = Inr features' \<Longrightarrow>
   \<forall>k \<in> set keys. \<exists>s t. features k = Some s \<and> parse_tensor s out_type = Inr t
                          \<and> features' k = Some t"
proof (induction keys arbitrary: features)
  case Nil
  then show ?case by simp
next
  case (Cons key keys)
  from Cons.prems(2) obtain features1 where
    first: "decode_key key out_type features = Inr features1"
    and rest: "decode_keys keys out_type features1 = Inr features'"
    by (auto simp: bind_err_Inr_iff)
  from decode_key_Inr [OF first] obtain s0 t0 where
    s0: "features key = Some s0" and t0: "parse_tensor s0 out_type = Inr t0"
    and f1: "features1 = features(key \<mapsto> t0)"
    by auto
  from Cons.prems(1) have fresh: "key \<notin> set keys" and distinct: "distinct keys"
    by simp_all
  note later = Cons.IH [OF distinct rest]
  show ?case
  proof
    fix k assume k: "k \<in> set (key # keys)"
    show "\<exists>s t. features k = Some s \<and> parse_tensor s out_type = Inr t \<and> features' k = Some t"
    proof (cases "k = key")
      case True
      with fresh decode_keys_Inr [OF rest] f1 have "features' k = Some t0" by simp
      with True s0 t0 show ?thesis by simp
    next
      case False
      with k have "k \<in> set keys" by simp
      with later obtain s t where
        "features1 k = Some s" "parse_tensor s out_type = Inr t" "features' k = Some t"
        by blast
      with False f1 show ?thesis by simp
    qed
  qed
qed

lemma parse_features_at:
  assumes "parse_features fs spec = Inr m" and "distinct (map fst spec)"
    and "(k, conf) \<in> set spec"
  shows "\<exists>t. m k = Some t \<and> parse_feature conf (fs k) = Inr t"
proof -
  from assms(2,3) have "map_of spec k = Some conf" by (rule map_of_is_SomeI)
  moreover from parse_features_Inr [OF assms(1)] assms(3)
  obtain t where "parse_feature conf (fs k) = Inr t" by blast
  ultimately show ?thesis using parse_features_Inr [OF assms(1)] by simp
qed

lemma feature_spec_distinct: "distinct (map fst feature_spec)"
  by (simp add: feature_spec_def goes_bands_def)

lemma feature_spec_entries:
  "list_all (\<lambda>k. (k, FixedLenFeature [] DT_STRING) \<in> set feature_spec)
     (goes_bands @ [''brightness_temperature_difference'', ''human_pixel_masks'',
                    ''human_individual_masks'', ''projection_wkt''])"
  "list_all (\<lambda>k. (k, FixedLenFeature [] DT_INT64) \<in> set feature_spec)
     [''n_times_before'', ''n_times_after'', ''timestamp'']"
  "list_all (\<lambda>k. (k, FixedLenFeature [] DT_FLOAT) \<in> set feature_spec)
     [''col_min'', ''row_min'', ''col_size'', ''row_size'']"
  "(''satellite_scan_starts'', VarLenFeature DT_INT64) \<in> set feature_spec"
  by (simp_all add: feature_spec_def goes_bands_def)

text \<open>
  What a returned dictionary holds: every field of the example, decoded. A return
  therefore means that the example had every required field with one value of its type
  and every tensor field decodable.
\<close>

lemma parse_example_values:
  assumes "parse_example (Some fs) = Inr features"
  shows "(\<forall>k \<in> set (goes_bands @ [''brightness_temperature_difference'']).
            \<exists>a. fs k = Some (BytesList [DoubleProto a]) \<and> features k = Some (TDouble a))
       \<and> (\<forall>k \<in> {''human_pixel_masks'', ''human_individual_masks''}.
            \<exists>a. fs k = Some (BytesList [Int32Proto a]) \<and> features k = Some (TInt32 a))
       \<and> (\<forall>k \<in> {''n_times_before'', ''n_times_after'', ''timestamp''}.
            \<exists>v. fs k = Some (Int64List [v]) \<and> features k = Some (TInt64 v))
       \<and> (\<exists>b. fs ''projection_wkt'' = Some (BytesList [b])
              \<and> features ''projection_wkt'' = Some (TString b))
       \<and> (\<forall>k \<in> {''col_min'', ''row_min'', ''col_size'', ''row_size''}.
            \<exists>v. fs k = Some (FloatList [v]) \<and> features k = Some (TFloat32 v))
       \<and> ((fs ''satellite_scan_starts'' = None
             \<and> features ''satellite_scan_starts'' = Some (TSparseInt64 []))
            \<or> (\<exists>vs. fs ''satellite_scan_starts'' = Some (Int64List vs)
                  \<and> features ''satellite_scan_starts'' = Some (TSparseInt64 vs)))"
proof -
  let ?bands = "goes_bands @ [''brightness_temperature_difference'']"
  from assms obtain f0 f1 f2 where
    f0: "parse_features fs feature_spec = Inr f0"
    and f1: "decode_keys ?bands DT_DOUBLE f0 = Inr f1"
    and f2: "decode_key ''human_pixel_masks'' DT_INT32 f1 = Inr f2"
    and f3: "decode_key ''human_individual_masks'' DT_INT32 f2 = Inr features"
    by (auto simp: parse_example_def parse_single_example_def bind_err_Inr_iff)
  note at = parse_features_at [OF f0 feature_spec_distinct]
  have string: "\<exists>b. fs k = Some (BytesList [b]) \<and> f0 k = Some (TString b)"
    if "k \<in> set (?bands @ [''human_pixel_masks'', ''human_individual_masks'', ''projection_wkt''])"
    for k
  proof -
    from that feature_spec_entries(1)
    have "(k, FixedLenFeature [] DT_STRING) \<in> set feature_spec"
      by (simp only: list_all_iff append_assoc append_Cons append_Nil)
    from at [OF this] obtain t where
      "f0 k = Some t" "parse_feature (FixedLenFeature [] DT_STRING) (fs k) = Inr t" by blast
    with parse_feature_value [of "FixedLenFeature [] DT_STRING" "fs k" t] show ?thesis by auto
  qed
  have int64: "\<exists>v. fs k = Some (Int64List [v]) \<and> f0 k = Some (TInt64 v)"
    if "k \<in> set [''n_times_before'', ''n_times_after'', ''timestamp'']" for k
  proof -
    from that feature_spec_entries(2)
    have "(k, FixedLenFeature [] DT_INT64) \<in> set feature_spec"
      by (simp only: list_all_iff)
    from at [OF this] obtain t where
      "f0 k = Some t" "parse_feature (FixedLenFeature [] DT_INT64) (fs k) = Inr t" by blast
    with parse_feature_value [of "FixedLenFeature [] DT_INT64" "fs k" t] show ?thesis by auto
  qed
  have float32: "\<exists>v. fs k = Some (FloatList [v]) \<and> f0 k = Some (TFloat32 v)"
    if "k \<in> set [''col_min'', ''row_min'', ''col_size'', ''row_size'']" for k
  proof -
    from that feature_spec_entries(3)
    have "(k, FixedLenFeature [] DT_FLOAT) \<in> set feature_spec"
      by (simp only: list_all_iff)
    from at [OF this] obtain t where
      "f0 k = Some t" "parse_feature (FixedLenFeature [] DT_FLOAT) (fs k) = Inr t" by blast
    with parse_feature_value [of "FixedLenFeature [] DT_FLOAT" "fs k" t] show ?thesis by auto
  qed
  have sparse: "(fs ''satellite_scan_starts'' = None
        \<and> f0 ''satellite_scan_starts'' = Some (TSparseInt64 []))
      \<or> (\<exists>vs. fs ''satellite_scan_starts'' = Some (Int64List vs)
            \<and> f0 ''satellite_scan_starts'' = Some (TSparseInt64 vs))"
  proof -
    from at [OF feature_spec_entries(4)] obtain t where
      "f0 ''satellite_scan_starts'' = Some t"
      "parse_feature (VarLenFeature DT_INT64) (fs ''satellite_scan_starts'') = Inr t" by blast
    with parse_feature_value [of "VarLenFeature DT_INT64" "fs ''satellite_scan_starts''" t]
    show ?thesis by auto
  qed
  from decode_key_Inr [OF f2] obtain s2 t2 where
    s2: "f1 ''human_pixel_masks'' = Some s2" and t2: "parse_tensor s2 DT_INT32 = Inr t2"
    and f2_eq: "f2 = f1(''human_pixel_masks'' \<mapsto> t2)"
    by auto
  from decode_key_Inr [OF f3] obtain s3 t3 where
    s3: "f2 ''human_individual_masks'' = Some s3" and t3: "parse_tensor s3 DT_INT32 = Inr t3"
    and f3_eq: "features = f2(''human_individual_masks'' \<mapsto> t3)"
    by auto
  have distinct: "distinct ?bands" by (simp add: goes_bands_def)
  note decoded = decode_keys_values [OF distinct f1]
  note untouched = decode_keys_Inr [OF f1, THEN conjunct1, rule_format]
  have other: "features k = f0 k"
    if "k \<notin> set ?bands" "k \<noteq> ''human_pixel_masks''" "k \<noteq> ''human_individual_masks''" for k
    using that untouched [of k] f2_eq f3_eq by simp
  have masks_not_bands: "''human_pixel_masks'' \<notin> set ?bands" "''human_individual_masks'' \<notin> set ?bands"
    by (simp_all add: goes_bands_def)
  show ?thesis
  proof (intro conjI ballI)
    fix k assume k: "k \<in> set ?bands"
    then have "k \<noteq> ''human_pixel_masks''" "k \<noteq> ''human_individual_masks''"
      using masks_not_bands by auto
    with f2_eq f3_eq have same: "features k = f1 k" by simp
    from decoded k obtain s t where
      s: "f0 k = Some s" and t: "parse_tensor s DT_DOUBLE = Inr t" and "f1 k = Some t"
      by blast
    moreover from k string [of k] obtain b where "fs k = Some (BytesList [b])" "f0 k = Some (TString b)"
      by auto
    ultimately show "\<exists>a. fs k = Some (BytesList [DoubleProto a]) \<and> features k = Some (TDouble a)"
      using same parse_tensor_value [OF t] by auto
  next
    fix k assume k: "k \<in> {''human_pixel_masks'', ''human_individual_masks''}"
    have pixel: "\<exists>a. fs ''human_pixel_masks'' = Some (BytesList [Int32Proto a])
        \<and> features ''human_pixel_masks'' = Some (TInt32 a)"
    proof -
      from string [of "''human_pixel_masks''"] obtain b where
        "fs ''human_pixel_masks'' = Some (BytesList [b])" "f0 ''human_pixel_masks'' = Some (TString b)"
        by auto
      moreover from untouched [OF masks_not_bands(1)] s2 have "f0 ''human_pixel_masks'' = Some s2"
        by simp
      ultimately show ?thesis
        using parse_tensor_value [OF t2] f2_eq f3_eq by auto
    qed
    have individual: "\<exists>a. fs ''human_individual_masks'' = Some (BytesList [Int32Proto a])
        \<and> features ''human_individual_masks'' = Some (TInt32 a)"
    proof -
      from string [of "''human_individual_masks''"] obtain b where
        "fs ''human_individual_masks'' = Some (BytesList [b])"
        "f0 ''human_individual_masks'' = Some (TString b)"
        by auto
      moreover from untouched [OF masks_not_bands(2)] s3 f2_eq
      have "f0 ''human_individual_masks'' = Some s3"
        by simp
      ultimately show ?thesis
        using parse_tensor_value [OF t3] f3_eq by auto
    qed
    from k pixel individual
    show "\<exists>a. fs k = Some (BytesList [Int32Proto a]) \<and> features k = Some (TInt32 a)"
      by auto
  next
    fix k assume k: "k \<in> {''n_times_before'', ''n_times_after'', ''timestamp''}"
    then have "features k = f0 k"
      by (intro other) (auto simp: goes_bands_def)
    with k int64 [of k] show "\<exists>v. fs k = Some (Int64List [v]) \<and> features k = Some (TInt64 v)"
      by auto
  next
    have "features ''projection_wkt'' = f0 ''projection_wkt''"
      by (intro other) (simp_all add: goes_bands_def)
    with string [of "''projection_wkt''"]
    show "\<exists>b. fs ''projection_wkt'' = Some (BytesList [b])
        \<and> features ''projection_wkt'' = Some (TString b)"
      by auto
  next
    fix k assume k: "k \<in> {''col_min'', ''row_min'', ''col_size'', ''row_size''}"
    then have "features k = f0 k"
      by (intro other) (auto simp: goes_bands_def)
    with k float32 [of k] show "\<exists>v. fs k = Some (FloatList [v]) \<and> features k = Some (TFloat32 v)"
      by auto
  next
    have "features ''satellite_scan_starts'' = f0 ''satellite_scan_starts''"
      by (intro other) (simp_all add: goes_bands_def)
    with sparse
    show "(fs ''satellite_scan_starts'' = None
          \<and> features ''satellite_scan_starts'' = Some (TSparseInt64 []))
        \<or> (\<exists>vs. fs ''satellite_scan_starts'' = Some (Int64List vs)
              \<and> features ''satellite_scan_starts'' = Some (TSparseInt64 vs))"
      by simp
  qed
qed

text \<open>
  Claim C7, as stated: \<open>parse_example\<close> returns a dictionary on every serialized
  example that contains all required fields. It does not: the example below holds every
  field of the schema, but the bytes under \<open>co2\<close> are no serialized tensor, and
  \<open>parse_example\<close> raises the InvalidArgumentError of \<open>tf.io.parse_tensor\<close>.
\<close>

theorem undecodable_field_counterexample:
  "(let fs = map_of
        [(''upper_vapor'', BytesList [DoubleProto \<lparr>shape = [1, 1, 1], data = [230]\<rparr>]),
         (''mid_vapor'', BytesList [DoubleProto \<lparr>shape = [1, 1, 1], data = [240]\<rparr>]),
         (''low_vapor'', BytesList [DoubleProto \<lparr>shape = [1, 1, 1], data = [250]\<rparr>]),
         (''cloud_top'', BytesList [DoubleProto \<lparr>shape = [1, 1, 1], data = [272]\<rparr>]),
         (''ozone'', BytesList [DoubleProto \<lparr>shape = [1, 1, 1], data = [260]\<rparr>]),
         (''data_10um'', BytesList [DoubleProto \<lparr>shape = [1, 1, 1], data = [274]\<rparr>]),
         (''data_11um'', BytesList [DoubleProto \<lparr>shape = [1, 1, 1], data = [273]\<rparr>]),
         (''data_12um'', BytesList [DoubleProto \<lparr>shape = [1, 1, 1], data = [271]\<rparr>]),
         (''co2'', BytesList [Opaque ''not a tensor'']),
         (''brightness_temperature_difference'',
           BytesList [DoubleProto \<lparr>shape = [1, 1, 1], data = [2]\<rparr>]),
         (''human_individual_masks'',
           BytesList [Int32Proto \<lparr>shape = [1, 1, 1, 2], data = [1, 0]\<rparr>]),
         (''human_pixel_masks'', BytesList [Int32Proto \<lparr>shape = [1, 1, 1], data = [1]\<rparr>]),
         (''n_times_before'', Int64List [0]),
         (''n_times_after'', Int64List [0]),
         (''projection_wkt'', BytesList [Opaque ''PROJCS'']),
         (''col_min'', FloatList [0]),
         (''row_min'', FloatList [0]),
         (''col_size'', FloatList [1]),
         (''row_size'', FloatList [1]),
         (''timestamp'', Int64List [1682745713]),
         (''satellite_scan_starts'', Int64List [1682745600, 1682746200])]
    in list_all (\<lambda>k. fs k \<noteq> None) (map fst spec_record_schema)
       \<and> parse_example (Some fs) = Inl InvalidArgumentError)"
  unfolding Let_def
proof
  show "list_all (\<lambda>k. (map_of
        [(''upper_vapor'', BytesList [DoubleProto \<lparr>shape = [1, 1, 1], data = [230]\<rparr>]),
         (''mid_vapor'', BytesList [DoubleProto \<lparr>shape = [1, 1, 1], data = [240]\<rparr>]),
         (''low_vapor'', BytesList [DoubleProto \<lparr>shape = [1, 1, 1], data = [250]\<rparr>]),
         (''cloud_top'', BytesList [DoubleProto \<lparr>shape = [1, 1, 1], data = [272]\<rparr>]),
         (''ozone'', BytesList [DoubleProto \<lparr>shape = [1, 1, 1], data = [260]\<rparr>]),
         (''data_10um'', BytesList [DoubleProto \<lparr>shape = [1, 1, 1], data = [274]\<rparr>]),
         (''data_11um'', BytesList [DoubleProto \<lparr>shape = [1, 1, 1], data = [273]\<rparr>]),
         (''data_12um'', BytesList [DoubleProto \<lparr>shape = [1, 1, 1], data = [271]\<rparr>]),
         (''co2'', BytesList [Opaque ''not a tensor'']),
         (''brightness_temperature_difference'',
           BytesList [DoubleProto \<lparr>shape = [1, 1, 1], data = [2]\<rparr>]),
         (''human_individual_masks'',
           BytesList [Int32Proto \<lparr>shape = [1, 1, 1, 2], data = [1, 0]\<rparr>]),
         (''human_pixel_masks'', BytesList [Int32Proto \<lparr>shape = [1, 1, 1], data = [1]\<rparr>]),
         (''n_times_before'', Int64List [0]),
         (''n_times_after'', Int64List [0]),
         (''projection_wkt'', BytesList [Opaque ''PROJCS'']),
         (''col_min'', FloatList [0]),
         (''row_min'', FloatList [0]),
         (''col_size'', FloatList [1]),
         (''row_size'', FloatList [1]),
         (''timestamp'', Int64List [1682745713]),
         (''satellite_scan_starts'', Int64List [1682745600, 1682746200])]) k \<noteq> None) (map fst spec_record_schema)"
    by (simp add: spec_record_schema_def)
next
  show "parse_example (Some (map_of
        [(''upper_vapor'', BytesList [DoubleProto \<lparr>shape = [1, 1, 1], data = [230]\<rparr>]),
         (''mid_vapor'', BytesList [DoubleProto \<lparr>shape = [1, 1, 1], data = [240]\<rparr>]),
         (''low_vapor'', BytesList [DoubleProto \<lparr>shape = [1, 1, 1], data = [250]\<rparr>]),
         (''cloud_top'', BytesList [DoubleProto \<lparr>shape = [1, 1, 1], data = [272]\<rparr>]),
         (''ozone'', BytesList [DoubleProto \<lparr>shape = [1, 1, 1], data = [260]\<rparr>]),
         (''data_10um'', BytesList [DoubleProto \<lparr>shape = [1, 1, 1], data = [274]\<rparr>]),
         (''data_11um'', BytesList [DoubleProto \<lparr>shape = [1, 1, 1], data = [273]\<rparr>]),
         (''data_12um'', BytesList [DoubleProto \<lparr>shape = [1, 1, 1], data = [271]\<rparr>]),
         (''co2'', BytesList [Opaque ''not a tensor'']),
         (''brightness_temperature_difference'',
           BytesList [DoubleProto \<lparr>shape = [1, 1, 1], data = [2]\<rparr>]),
         (''human_individual_masks'',
           BytesList [Int32Proto \<lparr>shape = [1, 1, 1, 2], data = [1, 0]\<rparr>]),
         (''human_pixel_masks'', BytesList [Int32Proto \<lparr>shape = [1, 1, 1], data = [1]\<rparr>]),
         (''n_times_before'', Int64List [0]),
         (''n_times_after'', Int64List [0]),
         (''projection_wkt'', BytesList [Opaque ''PROJCS'']),
         (''col_min'', FloatList [0]),
         (''row_min'', FloatList [0]),
         (''col_size'', FloatList [1]),
         (''row_size'', FloatList [1]),
         (''timestamp'', Int64List [1682745713]),
         (''satellite_scan_starts'', Int64List [1682745600, 1682746200])])) = Inl InvalidArgumentError"
    by (simp add: parse_example_def parse_single_example_def feature_spec_def goes_bands_def
        decode_key_def getitem_def)
qed

text \<open>
  Claim C7, amended. \<open>parse_example\<close> returns a dictionary on every serialized example
  that contains the required fields, each with exactly one value of its declared type, the
  ten band fields holding serialized tensors of doubles and the two mask fields serialized
  tensors of 32-bit integers (\<open>satellite_scan_starts\<close> may be absent). Every dictionary
  it returns has exactly the keys of the record schema, each with a tensor of the schema's
  element type (the nine bands and \<open>brightness_temperature_difference\<close> as doubles, the
  two masks as 32-bit integers, \<open>n_times_before\<close>, \<open>n_times_after\<close> and
  \<open>timestamp\<close> as 64-bit integers, \<open>projection_wkt\<close> as a string, the four extents
  as 32-bit floats, and \<open>satellite_scan_starts\<close> as a variable-length 64-bit integer
  feature), and holds under each key the decoded value of the example's field.
\<close>

theorem parse_example_schema:
  "(\<forall>features. parse_example serialized = Inr features \<longrightarrow>
      (\<forall>k. map_option (\<lambda>t. (dtype_of t, is_sparse t)) (features k) = map_of spec_record_schema k)
      \<and> dom features = fst ` set spec_record_schema)
   \<and> (\<forall>fs. serialized = Some fs
        \<and> (\<forall>k \<in> set (goes_bands @ [''brightness_temperature_difference'']).
              \<exists>a. fs k = Some (BytesList [DoubleProto a]))
        \<and> (\<forall>k \<in> {''human_pixel_masks'', ''human_individual_masks''}.
              \<exists>a. fs k = Some (BytesList [Int32Proto a]))
        \<and> (\<forall>k \<in> {''n_times_before'', ''n_times_after'', ''timestamp''}.
              \<exists>v. fs k = Some (Int64List [v]))
        \<and> (\<exists>b. fs ''projection_wkt'' = Some (BytesList [b]))
        \<and> (\<forall>k \<in> {''col_min'', ''row_min'', ''col_size'', ''row_size''}.
              \<exists>v. fs k = Some (FloatList [v]))
        \<and> (fs ''satellite_scan_starts'' = None
             \<or> (\<exists>vs. fs ''satellite_scan_starts'' = Some (Int64List vs)))
        \<longrightarrow> (\<exists>features. parse_example serialized = Inr features))
   \<and> (\<forall>fs features. serialized = Some fs \<and> parse_example serialized = Inr features \<longrightarrow>
        (\<forall>k \<in> set (goes_bands @ [''brightness_temperature_difference'']).
              \<exists>a. fs k = Some (BytesList [DoubleProto a]) \<and> features k = Some (TDouble a))
        \<and> (\<forall>k \<in> {''human_pixel_masks'', ''human_individual_masks''}.
              \<exists>a. fs k = Some (BytesList [Int32Proto a]) \<and> features k = Some (TInt32 a))
        \<and> (\<forall>k \<in> {''n_times_before'', ''n_times_after'', ''timestamp''}.
              \<exists>v. fs k = Some (Int64List [v]) \<and> features k = Some (TInt64 v))
        \<and> (\<exists>b. fs ''projection_wkt'' = Some (BytesList [b])
               \<and> features ''projection_wkt'' = Some (TString b))
        \<and> (\<forall>k \<in> {''col_min'', ''row_min'', ''col_size'', ''row_size''}.
              \<exists>v. fs k = Some (FloatList [v]) \<and> features k = Some (TFloat32 v))
        \<and> ((fs ''satellite_scan_starts'' = None
              \<and> features ''satellite_scan_starts'' = Some (TSparseInt64 []))
             \<or> (\<exists>vs. fs ''satellite_scan_starts'' = Some (Int64List vs)
                   \<and> features ''satellite_scan_starts'' = Some (TSparseInt64 vs))))"
proof -
  have kinds: "\<forall>features. parse_example serialized = Inr features \<longrightarrow>
      (\<forall>k. map_option (\<lambda>t. (dtype_of t, is_sparse t)) (features k) = map_of spec_record_schema k)
      \<and> dom features = fst ` set spec_record_schema"
  proof (intro allI impI conjI)
    fix features k assume "parse_example serialized = Inr features"
    then show "map_option (\<lambda>t. (dtype_of t, is_sparse t)) (features k)
        = map_of spec_record_schema k"
      by (rule parse_example_kinds)
  next
    fix features assume parsed: "parse_example serialized = Inr features"
    have "features k = None \<longleftrightarrow> map_of spec_record_schema k = None" for k
      using parse_example_kinds [OF parsed, of k] by (metis option.map_disc_iff)
    then have "dom features = dom (map_of spec_record_schema)"
      by (simp add: dom_def)
    then show "dom features = fst ` set spec_record_schema"
      by (simp only: dom_map_of_conv_image_fst)
  qed
  have returns: "\<forall>fs. serialized = Some fs
        \<and> (\<forall>k \<in> set (goes_bands @ [''brightness_temperature_difference'']).
              \<exists>a. fs k = Some (BytesList [DoubleProto a]))
        \<and> (\<forall>k \<in> {''human_pixel_masks'', ''human_individual_masks''}.
              \<exists>a. fs k = Some (BytesList [Int32Proto a]))
        \<and> (\<forall>k \<in> {''n_times_before'', ''n_times_after'', ''timestamp''}.
              \<exists>v. fs k = Some (Int64List [v]))
        \<and> (\<exists>b. fs ''projection_wkt'' = Some (BytesList [b]))
        \<and> (\<forall>k \<in> {''col_min'', ''row_min'', ''col_size'', ''row_size''}.
              \<exists>v. fs k = Some (FloatList [v]))
        \<and> (fs ''satellite_scan_starts'' = None
             \<or> (\<exists>vs. fs ''satellite_scan_starts'' = Some (Int64List vs)))
        \<longrightarrow> (\<exists>features. parse_example serialized = Inr features)"
  proof (intro allI impI)
    fix fs
    assume "serialized = Some fs
        \<and> (\<forall>k \<in> set (goes_bands @ [''brightness_temperature_difference'']).
              \<exists>a. fs k = Some (BytesList [DoubleProto a]))
        \<and> (\<forall>k \<in> {''human_pixel_masks'', ''human_individual_masks''}.
              \<exists>a. fs k = Some (BytesList [Int32Proto a]))
        \<and> (\<forall>k \<in> {''n_times_before'', ''n_times_after'', ''timestamp''}.
              \<exists>v. fs k = Some (Int64List [v]))
        \<and> (\<exists>b. fs ''projection_wkt'' = Some (BytesList [b]))
        \<and> (\<forall>k \<in> {''col_min'', ''row_min'', ''col_size'', ''row_size''}.
              \<exists>v. fs k = Some (FloatList [v]))
        \<and> (fs ''satellite_scan_starts'' = None
             \<or> (\<exists>vs. fs ''satellite_scan_starts'' = Some (Int64List vs)))"
    then show "\<exists>features. parse_example serialized = Inr features"
      by (elim conjE) (rule parse_example_returns)
  qed
  have decoded: "\<forall>fs features. serialized = Some fs \<and> parse_example serialized = Inr features \<longrightarrow>
        (\<forall>k \<in> set (goes_bands @ [''brightness_temperature_difference'']).
              \<exists>a. fs k = Some (BytesList [DoubleProto a]) \<and> features k = Some (TDouble a))
        \<and> (\<forall>k \<in> {''human_pixel_masks'', ''human_individual_masks''}.
              \<exists>a. fs k = Some (BytesList [Int32Proto a]) \<and> features k = Some (TInt32 a))
        \<and> (\<forall>k \<in> {''n_times_before'', ''n_times_after'', ''timestamp''}.
              \<exists>v. fs k = Some (Int64List [v]) \<and> features k = Some (TInt64 v))
        \<and> (\<exists>b. fs ''projection_wkt'' = Some (BytesList [b])
               \<and> features ''projection_wkt'' = Some (TString b))
        \<and> (\<forall>k \<in> {''col_min'', ''row_min'', ''col_size'', ''row_size''}.
              \<exists>v. fs k = Some (FloatList [v]) \<and> features k = Some (TFloat32 v))
        \<and> ((fs ''satellite_scan_starts'' = None
              \<and> features ''satellite_scan_starts'' = Some (TSparseInt64 []))
             \<or> (\<exists>vs. fs ''satellite_scan_starts'' = Some (Int64List vs)
                   \<and> features ''satellite_scan_starts'' = Some (TSparseInt64 vs)))"
  proof (intro allI impI)
    fix fs features
    assume "serialized = Some fs \<and> parse_example serialized = Inr features"
    then have "parse_example (Some fs) = Inr features" by auto
    then show "(\<forall>k \<in> set (goes_bands @ [''brightness_temperature_difference'']).
              \<exists>a. fs k = Some (BytesList [DoubleProto a]) \<and> features k = Some (TDouble a))
        \<and> (\<forall>k \<in> {''human_pixel_masks'', ''human_individual_masks''}.
              \<exists>a. fs k = Some (BytesList [Int32Proto a]) \<and> features k = Some (TInt32 a))
        \<and> (\<forall>k \<in> {''n_times_before'', ''n_times_after'', ''timestamp''}.
              \<exists>v. fs k = Some (Int64List [v]) \<and> features k = Some (TInt64 v))
        \<and> (\<exists>b. fs ''projection_wkt'' = Some (BytesList [b])
               \<and> features ''projection_wkt'' = Some (TString b))
        \<and> (\<forall>k \<in> {''col_min'', ''row_min'', ''col_size'', ''row_size''}.
              \<exists>v. fs k = Some (FloatList [v]) \<and> features k = Some (TFloat32 v))
        \<and> ((fs ''satellite_scan_starts'' = None
              \<and> features ''satellite_scan_starts'' = Some (TSparseInt64 []))
             \<or> (\<exists>vs. fs ''satellite_scan_starts'' = Some (Int64List vs)
                   \<and> features ''satellite_scan_starts'' = Some (TSparseInt64 vs)))"
      by (rule parse_example_values)
  qed
  show ?thesis
    by (rule conjI [OF kinds conjI [OF returns decoded]])
qed

theorem parse_example_schema_witness:
  "\<exists>features.
     parse_example
       (Some (map_of
        [(''upper_vapor'', BytesList [DoubleProto \<lparr>shape = [1, 1, 1], data = [230]\<rparr>]),
         (''mid_vapor'', BytesList [DoubleProto \<lparr>shape = [1, 1, 1], data = [240]\<rparr>]),
         (''low_vapor'', BytesList [DoubleProto \<lparr>shape = [1, 1, 1], data = [250]\<rparr>]),
         (''cloud_top'', BytesList [DoubleProto \<lparr>shape = [1, 1, 1], data = [272]\<rparr>]),
         (''ozone'', BytesList [DoubleProto \<lparr>shape = [1, 1, 1], data = [260]\<rparr>]),
         (''data_10um'', BytesList [DoubleProto \<lparr>shape = [1, 1, 1], data = [274]\<rparr>]),
         (''data_11um'', BytesList [DoubleProto \<lparr>shape = [1, 1, 1], data = [273]\<rparr>]),
         (''data_12um'', BytesList [DoubleProto \<lparr>shape = [1, 1, 1], data = [271]\<rparr>]),
         (''co2'', BytesList [DoubleProto \<lparr>shape = [1, 1, 1], data = [255]\<rparr>]),
         (''brightness_temperature_difference'',
           BytesList [DoubleProto \<lparr>shape = [1, 1, 1], data = [2]\<rparr>]),
         (''human_individual_masks'',
           BytesList [Int32Proto \<lparr>shape = [1, 1, 1, 2], data = [1, 0]\<rparr>]),
         (''human_pixel_masks'', BytesList [Int32Proto \<lparr>shape = [1, 1, 1], data = [1]\<rparr>]),
         (''n_times_before'', Int64List [0]),
         (''n_times_after'', Int64List [0]),
         (''projection_wkt'', BytesList [Opaque ''PROJCS'']),
         (''col_min'', FloatList [0]),
         (''row_min'', FloatList [0]),
         (''col_size'', FloatList [1]),
         (''row_size'', FloatList [1]),
         (''timestamp'', Int64List [1682745713]),
         (''satellite_scan_starts'', Int64List [1682745600, 1682746200]),
         (''unused'', FloatList [7])])) = Inr features
     \<and> dom features = fst ` set spec_record_schema
     \<and> features ''co2'' = Some (TDouble \<lparr>shape = [1, 1, 1], data = [255]\<rparr>)
     \<and> features ''human_pixel_masks'' = Some (TInt32 \<lparr>shape = [1, 1, 1], data = [1]\<rparr>)
     \<and> features ''timestamp'' = Some (TInt64 1682745713)
     \<and> features ''satellite_scan_starts'' = Some (TSparseInt64 [1682745600, 1682746200])
     \<and> map_option is_sparse (features ''satellite_scan_starts'') = Some True
     \<and> features ''unused'' = None"
proof -
  let ?fs = "map_of
        [(''upper_vapor'', BytesList [DoubleProto \<lparr>shape = [1, 1, 1], data = [230]\<rparr>]),
         (''mid_vapor'', BytesList [DoubleProto \<lparr>shape = [1, 1, 1], data = [240]\<rparr>]),
         (''low_vapor'', BytesList [DoubleProto \<lparr>shape = [1, 1, 1], data = [250]\<rparr>]),
         (''cloud_top'', BytesList [DoubleProto \<lparr>shape = [1, 1, 1], data = [272]\<rparr>]),
         (''ozone'', BytesList [DoubleProto \<lparr>shape = [1, 1, 1], data = [260]\<rparr>]),
         (''data_10um'', BytesList [DoubleProto \<lparr>shape = [1, 1, 1], data = [274]\<rparr>]),
         (''data_11um'', BytesList [DoubleProto \<lparr>shape = [1, 1, 1], data = [273]\<rparr>]),
         (''data_12um'', BytesList [DoubleProto \<lparr>shape = [1, 1, 1], data = [271]\<rparr>]),
         (''co2'', BytesList [DoubleProto \<lparr>shape = [1, 1, 1], data = [255]\<rparr>]),
         (''brightness_temperature_difference'',
           BytesList [DoubleProto \<lparr>shape = [1, 1, 1], data = [2]\<rparr>]),
         (''human_individual_masks'',
           BytesList [Int32Proto \<lparr>shape = [1, 1, 1, 2], data = [1, 0]\<rparr>]),
         (''human_pixel_masks'', BytesList [Int32Proto \<lparr>shape = [1, 1, 1], data = [1]\<rparr>]),
         (''n_times_before'', Int64List [0]),
         (''n_times_after'', Int64List [0]),
         (''projection_wkt'', BytesList [Opaque ''PROJCS'']),
         (''col_min'', FloatList [0]),
         (''row_min'', FloatList [0]),
         (''col_size'', FloatList [1]),
         (''row_size'', FloatList [1]),
         (''timestamp'', Int64List [1682745713]),
         (''satellite_scan_starts'', Int64List [1682745600, 1682746200]),
         (''unused'', FloatList [7])]"
  let ?ex = "Some ?fs"
  note inst = parse_example_schema [of ?ex]
  from inst have ret: "\<forall>fs. ?ex = Some fs
        \<and> (\<forall>k \<in> set (goes_bands @ [''brightness_temperature_difference'']).
              \<exists>a. fs k = Some (BytesList [DoubleProto a]))
        \<and> (\<forall>k \<in> {''human_pixel_masks'', ''human_individual_masks''}.
              \<exists>a. fs k = Some (BytesList [Int32Proto a]))
        \<and> (\<forall>k \<in> {''n_times_before'', ''n_times_after'', ''timestamp''}.
              \<exists>v. fs k = Some (Int64List [v]))
        \<and> (\<exists>b. fs ''projection_wkt'' = Some (BytesList [b]))
        \<and> (\<forall>k \<in> {''col_min'', ''row_min'', ''col_size'', ''row_size''}.
              \<exists>v. fs k = Some (FloatList [v]))
        \<and> (fs ''satellite_scan_starts'' = None
             \<or> (\<exists>vs. fs ''satellite_scan_starts'' = Some (Int64List vs)))
        \<longrightarrow> (\<exists>features. parse_example ?ex = Inr features)"
    by (elim conjE)
  have "\<exists>features. parse_example ?ex = Inr features"
    by (rule ret [rule_format, of ?fs]) (simp add: goes_bands_def)
  then obtain features where parsed: "parse_example ?ex = Inr features" ..
  from inst have "\<forall>features. parse_example ?ex = Inr features \<longrightarrow>
      (\<forall>k. map_option (\<lambda>t. (dtype_of t, is_sparse t)) (features k) = map_of spec_record_schema k)
      \<and> dom features = fst ` set spec_record_schema"
    by (elim conjE)
  from this [rule_format, OF parsed] have kinds:
    "\<And>k. map_option (\<lambda>t. (dtype_of t, is_sparse t)) (features k) = map_of spec_record_schema k"
    and keys: "dom features = fst ` set spec_record_schema"
    by blast+
  from inst have dec: "\<forall>fs features. ?ex = Some fs \<and> parse_example ?ex = Inr features \<longrightarrow>
        (\<forall>k \<in> set (goes_bands @ [''brightness_temperature_difference'']).
              \<exists>a. fs k = Some (BytesList [DoubleProto a]) \<and> features k = Some (TDouble a))
        \<and> (\<forall>k \<in> {''human_pixel_masks'', ''human_individual_masks''}.
              \<exists>a. fs k = Some (BytesList [Int32Proto a]) \<and> features k = Some (TInt32 a))
        \<and> (\<forall>k \<in> {''n_times_before'', ''n_times_after'', ''timestamp''}.
              \<exists>v. fs k = Some (Int64List [v]) \<and> features k = Some (TInt64 v))
        \<and> (\<exists>b. fs ''projection_wkt'' = Some (BytesList [b])
               \<and> features ''projection_wkt'' = Some (TString b))
        \<and> (\<forall>k \<in> {''col_min'', ''row_min'', ''col_size'', ''row_size''}.
              \<exists>v. fs k = Some (FloatList [v]) \<and> features k = Some (TFloat32 v))
        \<and> ((fs ''satellite_scan_starts'' = None
              \<and> features ''satellite_scan_starts'' = Some (TSparseInt64 []))
             \<or> (\<exists>vs. fs ''satellite_scan_starts'' = Some (Int64List vs)
                   \<and> features ''satellite_scan_starts'' = Some (TSparseInt64 vs)))"
    by (elim conjE)
  have decoded: "(\<forall>k \<in> set (goes_bands @ [''brightness_temperature_difference'']).
              \<exists>a. ?fs k = Some (BytesList [DoubleProto a]) \<and> features k = Some (TDouble a))
        \<and> (\<forall>k \<in> {''human_pixel_masks'', ''human_individual_masks''}.
              \<exists>a. ?fs k = Some (BytesList [Int32Proto a]) \<and> features k = Some (TInt32 a))
        \<and> (\<forall>k \<in> {''n_times_before'', ''n_times_after'', ''timestamp''}.
              \<exists>v. ?fs k = Some (Int64List [v]) \<and> features k = Some (TInt64 v))
        \<and> (\<exists>b. ?fs ''projection_wkt'' = Some (BytesList [b])
               \<and> features ''projection_wkt'' = Some (TString b))
        \<and> (\<forall>k \<in> {''col_min'', ''row_min'', ''col_size'', ''row_size''}.
              \<exists>v. ?fs k = Some (FloatList [v]) \<and> features k = Some (TFloat32 v))
        \<and> ((?fs ''satellite_scan_starts'' = None
              \<and> features ''satellite_scan_starts'' = Some (TSparseInt64 []))
             \<or> (\<exists>vs. ?fs ''satellite_scan_starts'' = Some (Int64List vs)
                   \<and> features ''satellite_scan_starts'' = Some (TSparseInt64 vs)))"
    by (rule dec [rule_format, of ?fs features]) (rule conjI [OF refl parsed])
  from decoded have bands: "\<forall>k \<in> set (goes_bands @ [''brightness_temperature_difference'']).
        \<exists>a. ?fs k = Some (BytesList [DoubleProto a]) \<and> features k = Some (TDouble a)"
    by (elim conjE)
  from decoded have masks: "\<forall>k \<in> {''human_pixel_masks'', ''human_individual_masks''}.
        \<exists>a. ?fs k = Some (BytesList [Int32Proto a]) \<and> features k = Some (TInt32 a)"
    by (elim conjE)
  from decoded have ints: "\<forall>k \<in> {''n_times_before'', ''n_times_after'', ''timestamp''}.
        \<exists>v. ?fs k = Some (Int64List [v]) \<and> features k = Some (TInt64 v)"
    by (elim conjE)
  from decoded have scan: "(?fs ''satellite_scan_starts'' = None
          \<and> features ''satellite_scan_starts'' = Some (TSparseInt64 []))
        \<or> (\<exists>vs. ?fs ''satellite_scan_starts'' = Some (Int64List vs)
              \<and> features ''satellite_scan_starts'' = Some (TSparseInt64 vs))"
    by (elim conjE)
  have co2: "features ''co2'' = Some (TDouble \<lparr>shape = [1, 1, 1], data = [255]\<rparr>)"
    using bands [rule_format, of "''co2''"] by (simp add: goes_bands_def)
  have pixel: "features ''human_pixel_masks'' = Some (TInt32 \<lparr>shape = [1, 1, 1], data = [1]\<rparr>)"
    using masks [rule_format, of "''human_pixel_masks''"] by simp
  have stamp: "features ''timestamp'' = Some (TInt64 1682745713)"
    using ints [rule_format, of "''timestamp''"] by simp
  have starts: "features ''satellite_scan_starts'' = Some (TSparseInt64 [1682745600, 1682746200])"
    using scan by simp
  have "map_option is_sparse (features ''satellite_scan_starts'') = Some True"
    "features ''unused'' = None"
    using kinds [of "''satellite_scan_starts''"] kinds [of "''unused''"]
    by (auto simp: spec_record_schema_def)
  with parsed keys co2 pixel stamp starts show ?thesis by blast
qed

section \<open>Propagation of errors\<close>








end
